theory Spec2Isabelle
  imports Complex_Main "HOL-Library.AList"
begin

section \<open>Values, tables and the environment of a run\<close>

text \<open>
  The program (\<^verbatim>\<open>apply-pgscatalog-prs.py\<close>) works on pandas data frames.  A cell of a
  frame is a string, an integer, a floating-point number or a missing value.  Floating-point
  numbers are idealised as the rational they denote, and arithmetic on them is exact; the
  float \<^verbatim>\<open>-0.0\<close>, which no rational tells from \<^verbatim>\<open>0.0\<close>, is a cell of its own.
\<close>

datatype cell = CStr string | CInt int | CFloat rat | CNegZero | CNaN

text \<open>
  A data frame has row labels (the index, with an optional name) and named columns, in order.
  The weight matrix read from the PGS Catalog file has columns that are only known at run time.
\<close>

record dataframe =
  index_name :: string
  index :: "cell list"
  columns :: "(string \<times> cell list) list"

definition wf_frame :: "dataframe \<Rightarrow> bool" where
  "wf_frame df = list_all (\<lambda>c. length (snd c) = length (index df)) (columns df)"

text \<open>
  The plink \<^verbatim>\<open>.bim\<close> table has the fixed columns named in \<^verbatim>\<open>load_data\<close>
  (\<^verbatim>\<open>dummy_cm_position\<close> is not loaded).
\<close>

record variant =
  chr_name :: cell
  rsid :: cell
  chr_position :: cell
  base_allele :: cell
  alternative_allele :: cell

text \<open>
  A row of the plink \<^verbatim>\<open>.profile\<close> table, indexed by \<^verbatim>\<open>IID\<close>; only the columns the
  program reads are kept.  The score is a cell: pandas reads a column of whole numbers as
  integers.
\<close>

record score =
  IID :: cell
  CNT2 :: int
  SCORESUM :: cell

datatype file_content =
    Opaque
  | WeightMatrix dataframe
  | Bim "variant list"
  | Profile "score list"
  | Csv "string list list"

datatype error =
    Exit nat
  | KeyError string
  | TypeError
  | EOFError
  | AssertionError string
  | ReadError string
  | RuntimeError string
  | FileNotFoundError string

datatype event =
    Printout string
  | Print string
  | PrintHelp
  | MatchReport nat nat nat
  | TroubleshootGuide
  | Subprocess "string list"
  | ToCsv string

text \<open>
  The world a run acts on: the operator's replies to the prompts, the files on disk, what has
  been shown so far, and two things the program only calls: Python's \<^verbatim>\<open>str\<close> on a float, and
  the external programs started with \<^verbatim>\<open>subprocess.run\<close> (return code, standard error, disk
  afterwards; \<open>None\<close> when the program cannot be started).
\<close>

record world =
  answers :: "string list"
  disk :: "string \<Rightarrow> file_content option"
  console :: "event list"
  float_str :: "rat \<Rightarrow> string"
  processes :: "string list \<Rightarrow> (string \<Rightarrow> file_content option)
                  \<Rightarrow> (int \<times> string \<times> (string \<Rightarrow> file_content option)) option"

record arguments =
  genetic :: "string option"
  prs_wm :: "string option"
  out :: "string option"

subsection \<open>Programs: state passing with exceptions\<close>

type_synonym 'a prog = "world \<Rightarrow> (error + 'a) \<times> world"

definition ret :: "'a \<Rightarrow> 'a prog" where
  "ret x = (\<lambda>w. (Inr x, w))"

definition raise :: "error \<Rightarrow> 'a prog" where
  "raise e = (\<lambda>w. (Inl e, w))"

definition lift :: "error + 'a \<Rightarrow> 'a prog" where
  "lift r = (\<lambda>w. (r, w))"

definition bindP :: "'a prog \<Rightarrow> ('a \<Rightarrow> 'b prog) \<Rightarrow> 'b prog" where
  "bindP m f = (\<lambda>w. case m w of (Inl e, w') \<Rightarrow> (Inl e, w') | (Inr x, w') \<Rightarrow> f x w')"

definition thenP :: "unit prog \<Rightarrow> 'b prog \<Rightarrow> 'b prog" where
  "thenP m k = bindP m (\<lambda>_. k)"

definition emit :: "event list \<Rightarrow> unit prog" where
  "emit evs = (\<lambda>w. (Inr (), w\<lparr>console := console w @ evs\<rparr>))"

definition gets :: "(world \<Rightarrow> 'a) \<Rightarrow> 'a prog" where
  "gets f = (\<lambda>w. (Inr (f w), w))"

definition exit :: "nat \<Rightarrow> 'a prog" where
  "exit code = raise (Exit code)"

definition printout :: "string \<Rightarrow> unit prog" where
  "printout text = emit [Printout text]"

text \<open>
  \<^verbatim>\<open>str.strip()\<close>: the characters below 256 for which \<^verbatim>\<open>str.isspace\<close> holds are removed
  at both ends.
\<close>

definition is_space :: "char \<Rightarrow> bool" where
  "is_space c =
     (c \<in> {CHR 0x09, CHR 0x0A, CHR 0x0B, CHR 0x0C, CHR 0x0D,
            CHR 0x1C, CHR 0x1D, CHR 0x1E, CHR 0x1F, CHR 0x20, CHR 0x85, CHR 0xA0})"

definition strip :: "string \<Rightarrow> string" where
  "strip s = rev (dropWhile is_space (rev (dropWhile is_space s)))"

text \<open>
  \<^verbatim>\<open>Prompt.ask(..., choices=...)\<close> strips the reply and asks again until the stripped reply
  is one of the choices, which it returns.
\<close>

definition Prompt_ask :: "string list \<Rightarrow> string prog" where
  "Prompt_ask choices =
     (\<lambda>w. case dropWhile (\<lambda>a. strip a \<notin> set choices) (answers w) of
            [] \<Rightarrow> (Inl EOFError, w\<lparr>answers := []\<rparr>)
          | a # rest \<Rightarrow> (Inr (strip a), w\<lparr>answers := rest\<rparr>))"

definition isfile :: "string \<Rightarrow> bool prog" where
  "isfile path = (\<lambda>w. (Inr (disk w path \<noteq> None), w))"

text \<open>
  \<^verbatim>\<open>subprocess.run(cmd)\<close> raises \<^verbatim>\<open>FileNotFoundError\<close> when the program cannot be started;
  otherwise it returns when the program has ended, whatever its return code.
\<close>

definition subprocess_run :: "string list \<Rightarrow> (int \<times> string) prog" where
  "subprocess_run cmd =
     (\<lambda>w. case processes w cmd (disk w) of
            None \<Rightarrow> (Inl (FileNotFoundError (concat (take 1 cmd))), w)
          | Some (returncode, stderr, disk') \<Rightarrow>
              (Inr (returncode, stderr), w\<lparr>disk := disk', console := console w @ [Subprocess cmd]\<rparr>))"

subsection \<open>Rendering numbers\<close>

definition digit_char :: "int \<Rightarrow> char" where
  "digit_char d = ''0123456789'' ! nat d"

function str_digits :: "int \<Rightarrow> string" where
  "str_digits n =
     (if n < 10 then [digit_char n] else str_digits (n div 10) @ [digit_char (n mod 10)])"
  by pat_completeness auto
termination
  by (relation "measure nat") auto

declare str_digits.simps [simp del]

definition str_int :: "int \<Rightarrow> string" where
  "str_int i = (if i < 0 then ''-'' @ str_digits (- i) else str_digits i)"

text \<open>
  The C format \<^verbatim>\<open>%.4e\<close>: one digit, a point, four digits, \<^verbatim>\<open>e\<close>, the sign of the exponent
  and at least two exponent digits; the value is rounded to nearest, ties to even.
\<close>

definition round_half_even :: "rat \<Rightarrow> int" where
  "round_half_even r =
     (if r - of_int \<lfloor>r\<rfloor> < 1 / 2 then \<lfloor>r\<rfloor>
      else if 1 / 2 < r - of_int \<lfloor>r\<rfloor> then \<lfloor>r\<rfloor> + 1
      else if even \<lfloor>r\<rfloor> then \<lfloor>r\<rfloor> else \<lfloor>r\<rfloor> + 1)"

function num_digits :: "int \<Rightarrow> int" where
  "num_digits n = (if n < 10 then 1 else 1 + num_digits (n div 10))"
  by pat_completeness auto
termination
  by (relation "measure nat") auto

declare num_digits.simps [simp del]

definition scale10 :: "rat \<Rightarrow> int \<Rightarrow> rat" where
  "scale10 a e = (if 0 \<le> e then a * 10 ^ nat e else a / 10 ^ nat (- e))"

definition decimal_exponent :: "rat \<Rightarrow> int" where
  "decimal_exponent a =
     (if 1 \<le> a then num_digits \<lfloor>a\<rfloor> - 1
      else if 1 \<le> scale10 a (num_digits \<lfloor>1 / a\<rfloor> - 1)
           then 1 - num_digits \<lfloor>1 / a\<rfloor>
           else - num_digits \<lfloor>1 / a\<rfloor>)"

definition carry :: "int \<Rightarrow> int \<Rightarrow> int \<times> int" where
  "carry m e = (if 100000 \<le> m then (m div 10, e + 1) else (m, e))"

definition mantissa_exponent :: "rat \<Rightarrow> int \<times> int" where
  "mantissa_exponent a =
     carry (round_half_even (scale10 a (4 - decimal_exponent a))) (decimal_exponent a)"

definition format_mantissa :: "int \<Rightarrow> string" where
  "format_mantissa m =
     [digit_char (m div 10000 mod 10), CHR ''.'', digit_char (m div 1000 mod 10),
      digit_char (m div 100 mod 10), digit_char (m div 10 mod 10), digit_char (m mod 10)]"

definition format_exponent :: "int \<Rightarrow> string" where
  "format_exponent e =
     (if e < 0 then ''-'' else ''+'') @ (if \<bar>e\<bar> < 10 then ''0'' else '''') @ str_digits \<bar>e\<bar>"

definition float_format_e4 :: "rat \<Rightarrow> string" where
  "float_format_e4 x =
     (if x = 0 then ''0.0000e+00''
      else case mantissa_exponent \<bar>x\<bar> of (m, e) \<Rightarrow>
        (if x < 0 then ''-'' else '''') @ format_mantissa m @ ''e'' @ format_exponent e)"

subsection \<open>The pandas operations the program uses\<close>

text \<open>\<^verbatim>\<open>df[name]\<close>: the column, or \<^verbatim>\<open>KeyError\<close>.\<close>

definition getitem :: "dataframe \<Rightarrow> string \<Rightarrow> error + cell list" where
  "getitem df name =
     (case map_of (columns df) name of None \<Rightarrow> Inl (KeyError name) | Some s \<Rightarrow> Inr s)"

text \<open>\<^verbatim>\<open>df[name] = series\<close>: replaces the column in place, or appends it as the last one.\<close>

definition setitem :: "dataframe \<Rightarrow> string \<Rightarrow> cell list \<Rightarrow> dataframe" where
  "setitem df name s = df\<lparr>columns := AList.update name s (columns df)\<rparr>"

text \<open>\<^verbatim>\<open>df[[n1, n2, ...]]\<close>: the frame with these columns, in this order.\<close>

definition select_columns :: "dataframe \<Rightarrow> string list \<Rightarrow> error + dataframe" where
  "select_columns df names =
     (case filter (\<lambda>n. map_of (columns df) n = None) names of
        [] \<Rightarrow> Inr (df\<lparr>columns := map (\<lambda>n. (n, the (map_of (columns df) n))) names\<rparr>)
      | n # _ \<Rightarrow> Inl (KeyError n))"

text \<open>\<^verbatim>\<open>df.rename(mapper)\<close> with no axis: the mapper is applied to the row labels.\<close>

definition rename :: "(string \<Rightarrow> string option) \<Rightarrow> dataframe \<Rightarrow> dataframe" where
  "rename mapper df =
     df\<lparr>index := map (\<lambda>l. case l of
                               CStr s \<Rightarrow> (case mapper s of None \<Rightarrow> l | Some t \<Rightarrow> CStr t)
                             | _ \<Rightarrow> l) (index df)\<rparr>"

text \<open>\<^verbatim>\<open>series.astype(str)\<close>, cell by cell.\<close>

definition astype_str :: "(rat \<Rightarrow> string) \<Rightarrow> cell \<Rightarrow> string" where
  "astype_str fstr c =
     (case c of CStr s \<Rightarrow> s | CInt i \<Rightarrow> str_int i | CFloat x \<Rightarrow> fstr x
              | CNegZero \<Rightarrow> ''-0.0'' | CNaN \<Rightarrow> ''nan'')"

text \<open>\<^verbatim>\<open>series.unique()\<close>: the distinct values in order of first appearance.\<close>

fun unique :: "'a list \<Rightarrow> 'a list" where
  "unique [] = []"
| "unique (x # xs) = x # filter (\<lambda>y. y \<noteq> x) (unique xs)"

text \<open>\<^verbatim>\<open>series.nunique()\<close>: the number of distinct values, missing values left out.\<close>

definition nunique :: "cell list \<Rightarrow> nat" where
  "nunique s = length (unique (filter (\<lambda>c. c \<noteq> CNaN) s))"

text \<open>
  \<^verbatim>\<open>df.to_csv(path, sep="\t", float_format="%.4e")\<close>.  The written text is kept as its
  records, each a list of fields: a header line, then one line per row, each starting with the
  row label (\<^verbatim>\<open>index=True\<close> is the default of \<^verbatim>\<open>to_csv\<close>).
\<close>

definition csv_field :: "cell \<Rightarrow> string" where
  "csv_field c =
     (case c of CStr s \<Rightarrow> s | CInt i \<Rightarrow> str_int i
              | CFloat x \<Rightarrow> float_format_e4 x | CNegZero \<Rightarrow> ''-0.0000e+00''
              | CNaN \<Rightarrow> '''')"

definition csv_lines :: "dataframe \<Rightarrow> string list list" where
  "csv_lines df =
     (index_name df # map fst (columns df))
     # map (\<lambda>i. map csv_field (index df ! i # map (\<lambda>c. snd c ! i) (columns df)))
           [0..<length (index df)]"

definition to_csv :: "dataframe \<Rightarrow> string \<Rightarrow> unit prog" where
  "to_csv df path =
     (\<lambda>w. (Inr (), w\<lparr>disk := (disk w)(path \<mapsto> Csv (csv_lines df)),
                      console := console w @ [ToCsv path]\<rparr>))"

section \<open>The program\<close>

subsection \<open>\<^verbatim>\<open>check_input\<close>\<close>

fun check_files :: "string \<Rightarrow> string list \<Rightarrow> unit prog" where
  "check_files prefix [] = ret ()"
| "check_files prefix (ext # exts) =
     bindP (isfile (prefix @ ''.'' @ ext)) (\<lambda>present.
       if \<not> present
       then thenP (emit [Print (''plink genetic data are malformed - '' @ prefix @ ''.'' @ ext
                                @ '' is missing'')])
                  (exit 4)
       else check_files prefix exts)"

definition check_input :: "arguments \<Rightarrow> unit prog" where
  "check_input args =
     (case genetic args of
        None \<Rightarrow> thenP (emit [Print ''plink genetic data are required'', PrintHelp]) (exit 1)
      | Some g \<Rightarrow>
          thenP (check_files g [''bed'', ''bim'', ''fam''])
            (case prs_wm args of
               None \<Rightarrow> thenP (emit [Print ''PRS weight matrix is required'', PrintHelp]) (exit 2)
             | Some p \<Rightarrow>
                 bindP (isfile p) (\<lambda>present.
                   if \<not> present
                   then thenP (emit [Print ''PRS weight matrix file does not exist'']) (exit 5)
                   else (case out args of
                           None \<Rightarrow> thenP (emit [Print ''Output prefix is required'', PrintHelp])
                                         (exit 3)
                         | Some _ \<Rightarrow> ret ()))))"

subsection \<open>The two diagnostics\<close>

text \<open>
  \<^verbatim>\<open>print_error_misaligned_files\<close>: the six \<^verbatim>\<open>ERROR\<close> lines are kept as they are printed;
  the troubleshooting questions and answers that follow them are one event.
\<close>

definition error_misaligned_files_lines :: "event list" where
  "error_misaligned_files_lines =
          [Print ''ERROR: Less that a half of the PGSCatalog SNPs are available.'',
           Print ''ERROR: This may be for one of the following reasons:'',
           Print (''ERROR: 1. Either you are using un-imputed plink data. ''
                  @ ''THEN you have to impute the data.''),
           Print (''ERROR: *2. Or you have data imputed to a very specific panel that does not ''
                  @ ''contain a lot of common variants ''
                  @ ''(happens seldom, probably won't happen to you). ''
                  @ ''THEN you have to impute the data to a more general panel.''),
           Print (''ERROR: 3. Or the PRS weight matrix is using a different reference genome ''
                  @ ''than your plink data. ''
                  @ ''THEN you need to liftover your data to the correct reference genome.''),
           Print (''ERROR: *4. Or the PRS was done using a very specific chip and contains such ''
                  @ ''unique SNPs that no imputation panel has them ''
                  @ ''(happens seldom, probably won't happen to you). ''
                  @ ''THEN you have to find an imputation panel that has these SNPs ''
                  @ ''and impute the data to this panel.''),
           TroubleshootGuide]"

definition print_error_misaligned_files :: "unit prog" where
  "print_error_misaligned_files = emit error_misaligned_files_lines"

definition non_annotated_plink_file_error_lines :: "event list" where
  "non_annotated_plink_file_error_lines =
          [Printout ''ERROR: Your plink data have no variants IDs at all.'',
           Printout (''ERROR: Ask your data supplier (probably the phenomics platform) ''
                     @ ''to annotate it using dbSNP,''),
           Printout (''ERROR: or at least assign the dummy 'chrom:pos' ids to the SNPs, ''
                     @ ''if you know what you are doing.''),
           Printout (''ERROR: This script do *not* need *dbSNP* variant IDs, ''
                     @ ''but it *does* need *some* IDs.''),
           Printout ''---'',
           Printout ''P.S. We do *not* recommend using any kind of non-dbSNP ids,'',
           Printout ('' because your colleagues' scripts may, unfortunately, ''
                     @ ''rely on dbSNP annotation.''),
           Printout ('' If you are ok with having 'chrom:pos' encoding and you think that ''
                     @ ''you know what you are doing,''),
           Printout ('' then you must be able to construct the annotation command ''
                     @ ''using bash 'cut' and 'paste' yourself.'')]"

definition print_non_annotated_plink_file_error :: "unit prog" where
  "print_non_annotated_plink_file_error = emit non_annotated_plink_file_error_lines"

subsection \<open>Key strategies\<close>

text \<open>
  Both functions add the column \<^verbatim>\<open>pos_key\<close> to the weight matrix in place; the model
  returns the new frame.
\<close>

definition prep_keys_rsid :: "dataframe \<Rightarrow> variant list \<Rightarrow> dataframe prog" where
  "prep_keys_rsid pgscatalog_df plink_variants_df =
     (if nunique (map rsid plink_variants_df) = 1
         \<and> hd (unique (map rsid plink_variants_df)) = CStr ''.''
      then thenP print_non_annotated_plink_file_error (exit 30)
      else
        bindP (Prompt_ask (map fst (columns pgscatalog_df))) (\<lambda>rsid_column.
        bindP (lift (getitem pgscatalog_df rsid_column)) (\<lambda>ids.
        bindP (gets float_str) (\<lambda>fstr.
          ret (setitem pgscatalog_df ''pos_key'' (map (\<lambda>c. CStr (astype_str fstr c)) ids))))))"

definition prep_keys_chrompos :: "dataframe \<Rightarrow> variant list \<Rightarrow> dataframe prog" where
  "prep_keys_chrompos pgscatalog_df plink_variants_df =
     bindP (Prompt_ask (map fst (columns pgscatalog_df))) (\<lambda>chrom_column.
     bindP (Prompt_ask (map fst (columns pgscatalog_df))) (\<lambda>pos_column.
     bindP (lift (getitem pgscatalog_df chrom_column)) (\<lambda>chroms.
     bindP (lift (getitem pgscatalog_df pos_column)) (\<lambda>positions.
     bindP (gets float_str) (\<lambda>fstr.
       ret (setitem pgscatalog_df ''pos_key''
              (map2 (\<lambda>c p. CStr (astype_str fstr c @ '':'' @ astype_str fstr p))
                    chroms positions)))))))"

subsection \<open>\<^verbatim>\<open>check_the_files_match\<close>\<close>

definition check_the_files_match :: "dataframe \<Rightarrow> variant list \<Rightarrow> bool prog" where
  "check_the_files_match pgscatalog_df plink_variants_df =
     bindP (lift (getitem pgscatalog_df ''pos_key'')) (\<lambda>keys.
       let amount_of_shared_keys = card (set (map rsid plink_variants_df) \<inter> set keys);
           amount_of_plink_variants = length plink_variants_df;
           amount_of_pgscatalog_variants = length (index pgscatalog_df)
       in if (of_nat amount_of_shared_keys :: rat)
               > (50 / 100) * of_nat amount_of_pgscatalog_variants
          then thenP (emit [MatchReport amount_of_shared_keys amount_of_pgscatalog_variants
                                        amount_of_plink_variants])
                     (ret True)
          else ret False)"

subsection \<open>Loading\<close>

definition endswith :: "string \<Rightarrow> string \<Rightarrow> bool" where
  "endswith s suffix =
     (length suffix \<le> length s \<and> drop (length s - length suffix) s = suffix)"

definition maybe_unpack :: "string \<Rightarrow> string prog" where
  "maybe_unpack prs_wm_text_file =
     (if endswith prs_wm_text_file ''.txt.gz''
      then thenP (printout ''gzipped PGSCatalog file found, unpacking...'')
             (bindP (subprocess_run [''gunzip'', prs_wm_text_file]) (\<lambda>process.
                if fst process \<noteq> 0 then raise (AssertionError ''  ERROR: gunzip crashed'')
                else ret (take (length prs_wm_text_file - 3) prs_wm_text_file)))
      else ret prs_wm_text_file)"

text \<open>
  \<^verbatim>\<open>pd.read_table\<close>: parsing is pandas' work; a file holds the table it parses to.
\<close>

definition read_weight_matrix :: "string \<Rightarrow> dataframe prog" where
  "read_weight_matrix path =
     (\<lambda>w. case disk w path of
            Some (WeightMatrix df) \<Rightarrow> (Inr df, w)
          | _ \<Rightarrow> (Inl (ReadError path), w))"

definition read_bim :: "string \<Rightarrow> variant list prog" where
  "read_bim path =
     (\<lambda>w. case disk w path of
            Some (Bim vs) \<Rightarrow> (Inr vs, w)
          | _ \<Rightarrow> (Inl (ReadError path), w))"

definition read_profile :: "string \<Rightarrow> score list prog" where
  "read_profile path =
     (\<lambda>w. case disk w path of
            Some (Profile rows) \<Rightarrow> (Inr rows, w)
          | _ \<Rightarrow> (Inl (ReadError path), w))"

definition load_prs_wm :: "string \<Rightarrow> dataframe prog" where
  "load_prs_wm prs_wm_text_file =
     bindP (read_weight_matrix prs_wm_text_file) (\<lambda>df.
     thenP (printout (''  '' @ str_int (int (length (index df)))
                      @ '' SNPs discovered in the PRS weight matrix''))
     (thenP (if length (index df) < 1000
             then printout (''  WARNING: This looks like a more classical GRS! ''
                            @ ''But we will continue anyways'')
             else ret ())
     (ret df)))"

definition annotate_pgscatalog_file :: "dataframe \<Rightarrow> (string \<Rightarrow> string option) prog" where
  "annotate_pgscatalog_file pgscatalog_df =
     bindP (Prompt_ask (map fst (columns pgscatalog_df))) (\<lambda>beta_column.
     bindP (Prompt_ask (map fst (columns pgscatalog_df))) (\<lambda>effect_allele_column.
       ret ((Map.empty(beta_column \<mapsto> ''effect_weight''))
               (effect_allele_column \<mapsto> ''effect_allele''))))"

definition load_data :: "string \<Rightarrow> string \<Rightarrow> (dataframe \<times> variant list \<times> string) prog" where
  "load_data plink_prefix prs_wm_text_file0 =
     bindP (maybe_unpack prs_wm_text_file0) (\<lambda>prs_wm_text_file.
     thenP (printout ''Loading PGSCatalog data and removing comments and indels...'')
     (bindP (load_prs_wm prs_wm_text_file) (\<lambda>pgscatalog_df0.
      bindP (annotate_pgscatalog_file pgscatalog_df0) (\<lambda>mapper.
      thenP (printout ''Loading plink data...'')
      (bindP (read_bim (plink_prefix @ ''.bim'')) (\<lambda>plink_variants_df.
       thenP (printout (''All data are loaded'' @ [CHR 0x0A] @ ''-----------------''))
       (ret (rename mapper pgscatalog_df0, plink_variants_df,
             prs_wm_text_file @ ''.annotated''))))))))"

subsection \<open>\<^verbatim>\<open>preprocess_data\<close>\<close>

definition preprocess_data :: "dataframe \<Rightarrow> variant list \<Rightarrow> string \<Rightarrow> unit prog" where
  "preprocess_data pgscatalog_df0 plink_variants_df processed_wm_text_file =
     bindP (Prompt_ask [''rsid'', ''pos'']) (\<lambda>how_to_match.
     bindP (if how_to_match = ''rsid''
            then thenP (printout (''Trying to match PGSCatalog data with plink data ''
                                  @ ''using rsID...''))
                       (prep_keys_rsid pgscatalog_df0 plink_variants_df)
            else if how_to_match = ''pos''
            then thenP (printout (''Trying to match PGSCatalog data with plink data ''
                                  @ ''using chromosome and position...''))
                       (prep_keys_chrompos pgscatalog_df0 plink_variants_df)
            else raise (RuntimeError ''Unreacheble code'')) (\<lambda>pgscatalog_df.
     bindP (check_the_files_match pgscatalog_df plink_variants_df) (\<lambda>was_match_successful.
     bindP (lift (select_columns pgscatalog_df [''pos_key'', ''effect_allele'', ''effect_weight'']))
       (\<lambda>artifact.
     thenP (to_csv artifact processed_wm_text_file)
       (if \<not> was_match_successful
        then thenP print_error_misaligned_files (exit 40)
        else ret ())))))"

subsection \<open>Scoring and post-processing\<close>

text \<open>\<^verbatim>\<open>",".join(labels)\<close> raises \<^verbatim>\<open>TypeError\<close> on a label that is not a string.\<close>

fun join :: "string \<Rightarrow> cell list \<Rightarrow> error + string" where
  "join sep [] = Inr []"
| "join sep [CStr s] = Inr s"
| "join sep (CStr s # l # ls) =
     (case join sep (l # ls) of Inl e \<Rightarrow> Inl e | Inr t \<Rightarrow> Inr (s @ sep @ t))"
| "join sep (_ # ls) = Inl TypeError"

text \<open>
  \<^verbatim>\<open>df.drop(labels)\<close> removes every row whose label is among \<^verbatim>\<open>labels\<close>.  The mean of an
  empty column is NaN, and no comparison with it holds; here no row is compared then.
\<close>

definition plink_qc :: "score list \<Rightarrow> score list prog" where
  "plink_qc df =
     (let avg_snps_used = of_int (sum_list (map CNT2 df)) / of_nat (length df);
          bad_samples = map IID (filter (\<lambda>r. of_int (CNT2 r) < (95 / 100 :: rat) * avg_snps_used) df)
      in if bad_samples \<noteq> []
         then thenP (printout (''WARNING: The following samples has a lot of missing SNPs ''
                               @ ''(more than 5% of SNPs, available on average in other samples)''))
              (thenP (printout ''They will dropped from the following analysis'')
              (bindP (lift (join '','' bad_samples)) (\<lambda>names.
               thenP (printout names)
               (ret (filter (\<lambda>r. IID r \<notin> set bad_samples) df)))))
         else ret df)"

text \<open>\<^verbatim>\<open>df[["SCORESUM"]].to_csv(...)\<close> on the frame indexed by \<^verbatim>\<open>IID\<close>.\<close>

definition scoresum_frame :: "score list \<Rightarrow> dataframe" where
  "scoresum_frame df =
     \<lparr>index_name = ''IID'', index = map IID df,
      columns = [(''SCORESUM'', map SCORESUM df)]\<rparr>"

definition calculate_prs :: "string \<Rightarrow> string \<Rightarrow> string \<Rightarrow> unit prog" where
  "calculate_prs plink_prefix processed_wm_text_file output_prefix =
     thenP (printout ''Running plink PRS scoring...'')
     (bindP (subprocess_run [''plink'', ''--bfile'', plink_prefix, ''--score'',
                             processed_wm_text_file, ''1'', ''2'', ''3'', ''sum'', ''header'',
                             ''--out'', output_prefix]) (\<lambda>process.
      bindP (isfile (output_prefix @ ''.profile'')) (\<lambda>produced.
        if fst process \<noteq> 0 \<or> \<not> produced
        then thenP (emit [Print ''ERROR: plink has failed'', Print (snd process)]) (exit 20)
        else
          thenP (printout ''Parsing plink results...'')
          (bindP (read_profile (output_prefix @ ''.profile'')) (\<lambda>df0.
           bindP (plink_qc df0) (\<lambda>df.
           thenP (to_csv (scoresum_frame df) (output_prefix @ ''.prs''))
           (printout (''PRS is saved to '' @ output_prefix @ ''.prs''))))))))"

subsection \<open>\<^verbatim>\<open>main\<close>\<close>

text \<open>Drawing the screen (\<^verbatim>\<open>render\<close>, the layout updates) is left out.\<close>

definition main :: "arguments \<Rightarrow> unit prog" where
  "main args =
     thenP (check_input args)
       (case (genetic args, prs_wm args, out args) of
          (Some plink_prefix, Some prs_wm_text_file, Some output_prefix) \<Rightarrow>
            bindP (load_data plink_prefix prs_wm_text_file) (\<lambda>loaded.
              case loaded of (pgscatalog_df, plink_variants_df, processed_wm_text_file) \<Rightarrow>
                thenP (preprocess_data pgscatalog_df plink_variants_df processed_wm_text_file)
                      (calculate_prs plink_prefix processed_wm_text_file output_prefix))
        | _ \<Rightarrow> raise TypeError)"

section \<open>Notions used to state the properties\<close>

text \<open>The invocations of the external scorer (\<^verbatim>\<open>plink\<close>) recorded so far.\<close>

definition is_scoring :: "event \<Rightarrow> bool" where
  "is_scoring ev = (case ev of Subprocess (c # _) \<Rightarrow> c = ''plink'' | _ \<Rightarrow> False)"

definition scorer_invocations :: "world \<Rightarrow> event list" where
  "scorer_invocations w = filter is_scoring (console w)"

text \<open>A program that never starts the scorer, and a program whose errors all satisfy \<open>E\<close>.\<close>

definition unscored :: "'a prog \<Rightarrow> bool" where
  "unscored m = (\<forall>w. scorer_invocations (snd (m w)) = scorer_invocations w)"

definition raises :: "(error \<Rightarrow> bool) \<Rightarrow> 'a prog \<Rightarrow> bool" where
  "raises E m = (\<forall>w e w'. m w = (Inl e, w') \<longrightarrow> E e)"

text \<open>
  The first step of \<^verbatim>\<open>preprocess_data\<close> on its own: the choice of the strategy and the
  keying of the weight table.
\<close>

definition key_by_strategy :: "dataframe \<Rightarrow> variant list \<Rightarrow> dataframe prog" where
  "key_by_strategy pgscatalog_df0 plink_variants_df =
     bindP (Prompt_ask [''rsid'', ''pos'']) (\<lambda>how_to_match.
       if how_to_match = ''rsid''
       then thenP (printout (''Trying to match PGSCatalog data with plink data ''
                             @ ''using rsID...''))
                  (prep_keys_rsid pgscatalog_df0 plink_variants_df)
       else if how_to_match = ''pos''
       then thenP (printout (''Trying to match PGSCatalog data with plink data ''
                             @ ''using chromosome and position...''))
                  (prep_keys_chrompos pgscatalog_df0 plink_variants_df)
       else raise (RuntimeError ''Unreacheble code''))"

text \<open>
  A panel without annotation, as \<^verbatim>\<open>prep_keys_rsid\<close> tests it: the identifier column,
  missing values left out, holds the single value \<^verbatim>\<open>"."\<close> and starts with it.
\<close>

definition unannotated :: "variant list \<Rightarrow> bool" where
  "unannotated plink_variants_df =
     (set (filter (\<lambda>c. c \<noteq> CNaN) (map rsid plink_variants_df)) = {CStr ''.''}
      \<and> take 1 (map rsid plink_variants_df) = [CStr ''.''])"

text \<open>
  The part of \<^verbatim>\<open>calculate_prs\<close> that follows a successful run of the scorer, and the
  condition under which the run of the scorer counts as failed.
\<close>

definition score_output :: "string \<Rightarrow> unit prog" where
  "score_output output_prefix =
     thenP (printout ''Parsing plink results...'')
     (bindP (read_profile (output_prefix @ ''.profile'')) (\<lambda>df0.
      bindP (plink_qc df0) (\<lambda>df.
      thenP (to_csv (scoresum_frame df) (output_prefix @ ''.prs''))
      (printout (''PRS is saved to '' @ output_prefix @ ''.prs'')))))"

text \<open>The command line with which \<^verbatim>\<open>calculate_prs\<close> starts the scorer.\<close>

definition plink_command :: "string \<Rightarrow> string \<Rightarrow> string \<Rightarrow> string list" where
  "plink_command plink_prefix processed_wm_text_file output_prefix =
     [''plink'', ''--bfile'', plink_prefix, ''--score'', processed_wm_text_file,
      ''1'', ''2'', ''3'', ''sum'', ''header'', ''--out'', output_prefix]"

definition scorer_failed :: "string \<Rightarrow> string \<Rightarrow> string \<Rightarrow> world \<Rightarrow> bool" where
  "scorer_failed plink_prefix processed_wm_text_file output_prefix w =
     (case processes w (plink_command plink_prefix processed_wm_text_file output_prefix) (disk w)
      of None \<Rightarrow> False
       | Some (returncode, stderr, disk') \<Rightarrow>
           returncode \<noteq> 0 \<or> disk' (output_prefix @ ''.profile'') = None)"

text \<open>
  The run of \<^verbatim>\<open>main\<close> after the input checks and up to the verdict: loading, keying,
  \<^verbatim>\<open>check_the_files_match\<close>.
\<close>

definition verdict_of_run :: "string \<Rightarrow> string \<Rightarrow> bool prog" where
  "verdict_of_run plink_prefix prs_wm_text_file =
     bindP (load_data plink_prefix prs_wm_text_file) (\<lambda>loaded.
       case loaded of (pgscatalog_df0, plink_variants_df, processed_wm_text_file) \<Rightarrow>
         bindP (key_by_strategy pgscatalog_df0 plink_variants_df) (\<lambda>pgscatalog_df.
           check_the_files_match pgscatalog_df plink_variants_df))"

text \<open>
  The exit status of the process: the argument of \<^verbatim>\<open>exit\<close>; 1 when an exception is not
  caught (the interpreter prints the traceback and ends with status 1); 0 when \<^verbatim>\<open>main\<close>
  returns.
\<close>

definition process_status :: "error + unit \<Rightarrow> nat" where
  "process_status r = (case r of Inr _ \<Rightarrow> 0 | Inl (Exit code) \<Rightarrow> code | Inl _ \<Rightarrow> 1)"

text \<open>
  The frame made of the rows at the given positions, in the given order; a reordering of the
  rows is the case where the positions are a permutation.
\<close>

definition take_rows :: "nat list \<Rightarrow> dataframe \<Rightarrow> dataframe" where
  "take_rows ps df =
     df\<lparr>index := map (\<lambda>i. index df ! i) ps,
        columns := map (\<lambda>(n, s). (n, map (\<lambda>i. s ! i) ps)) (columns df)\<rparr>"

text \<open>
  The chromosome-name normalisation of the specification (stripping a \<^verbatim>\<open>chr\<close> prefix), and
  the locus key it asks for.  In the source this normalisation only occurs in the
  commented-out \<^verbatim>\<open>input_files_qc\<close>.
\<close>

definition spec_chrom_cutter :: "string \<Rightarrow> string" where
  "spec_chrom_cutter x = (if take 3 x = ''chr'' then drop 3 x else x)"

definition spec_locus_key :: "(rat \<Rightarrow> string) \<Rightarrow> cell \<Rightarrow> cell \<Rightarrow> cell" where
  "spec_locus_key fstr chrom pos =
     CStr (spec_chrom_cutter (astype_str fstr chrom) @ '':'' @ astype_str fstr pos)"

subsection \<open>Concrete inputs\<close>

definition example_weights :: dataframe where
  "example_weights =
     \<lparr>index_name = [], index = [CInt 0, CInt 1],
      columns = [(''rsID'', [CStr ''rs1'', CStr ''rs2'']),
                 (''chr_name'', [CStr ''chr1'', CStr ''2'']),
                 (''chr_position'', [CInt 100, CInt 200]),
                 (''effect_allele'', [CStr ''A'', CStr ''T'']),
                 (''effect_weight'', [CFloat (12345 / 100000), CFloat (- 73 / 1000000)])]\<rparr>"

definition example_variant :: "string \<Rightarrow> string \<Rightarrow> int \<Rightarrow> variant" where
  "example_variant chrom ident pos =
     \<lparr>chr_name = CStr chrom, rsid = CStr ident, chr_position = CInt pos,
      base_allele = CStr ''A'', alternative_allele = CStr ''G''\<rparr>"

definition example_panel :: "variant list" where
  "example_panel =
     [example_variant ''1'' ''rs1'' 100, example_variant ''1'' ''rs1'' 100,
      example_variant ''3'' ''rs9'' 300]"

definition example_keyed :: dataframe where
  "example_keyed = setitem example_weights ''pos_key'' [CStr ''rs1'', CStr ''rs2'']"

definition example_disk :: "string \<Rightarrow> file_content option" where
  "example_disk =
     [''panel.bed'' \<mapsto> Opaque, ''panel.bim'' \<mapsto> Bim example_panel, ''panel.fam'' \<mapsto> Opaque,
      ''score.txt'' \<mapsto> WeightMatrix example_weights]"

definition example_world :: world where
  "example_world =
     \<lparr>answers = [''effect_weight'', ''effect_allele'', ''rsid'', ''rsID''],
      disk = example_disk, console = [], float_str = (\<lambda>_. []),
      processes = (\<lambda>cmd d. Some (0, [], d))\<rparr>"

definition example_failing_world :: world where
  "example_failing_world = example_world\<lparr>processes := (\<lambda>cmd d. Some (1, ''plink: error'', d))\<rparr>"

definition example_arguments :: arguments where
  "example_arguments =
     \<lparr>genetic = Some ''panel'', prs_wm = Some ''score.txt'', out = Some ''result''\<rparr>"

definition example_keying_world :: world where
  "example_keying_world = example_world\<lparr>answers := [''rsid'', ''rsID'']\<rparr>"

definition example_unannotated_panel :: "variant list" where
  "example_unannotated_panel = [example_variant ''1'' ''.'' 100, example_variant ''2'' ''.'' 200]"

definition example_locus_world :: world where
  "example_locus_world = example_world\<lparr>answers := [''pos'', ''chr_name'', ''chr_position'']\<rparr>"

definition example_locus_panel :: "variant list" where
  "example_locus_panel =
     [example_variant ''1'' ''1:100'' 100, example_variant ''2'' ''2:200'' 200]"

definition example_locus_keyed :: dataframe where
  "example_locus_keyed =
     setitem example_weights ''pos_key'' [CStr ''chr1:100'', CStr ''2:200'']"

definition example_artifact :: dataframe where
  "example_artifact =
     \<lparr>index_name = [], index = [CInt 0, CInt 1],
      columns = [(''pos_key'', [CStr ''rs1'', CStr ''rs2'']),
                 (''effect_allele'', [CStr ''A'', CStr ''T'']),
                 (''effect_weight'', [CFloat (12345 / 100000), CFloat (- 73 / 1000000)])]\<rparr>"

definition example_score :: "cell \<Rightarrow> int \<Rightarrow> score" where
  "example_score label n = \<lparr>IID = label, CNT2 = n, SCORESUM = CFloat (1 / 2)\<rparr>"

definition example_profile :: "score list" where
  "example_profile =
     [example_score (CStr ''S1'') 100, example_score (CStr ''S2'') 100,
      example_score (CStr ''S3'') 40]"

definition example_numeric_profile :: "score list" where
  "example_numeric_profile =
     [example_score (CInt 1001) 100, example_score (CInt 1002) 100,
      example_score (CInt 1003) 40]"

definition example_family_profile :: "score list" where
  "example_family_profile =
     [example_score (CStr ''1'') 40, example_score (CStr ''1'') 100,
      example_score (CStr ''2'') 100, example_score (CStr ''3'') 100]"

text \<open>
  A weight file as many tools write it, with the columns \<^verbatim>\<open>SNP\<close>, \<^verbatim>\<open>A1\<close> and \<^verbatim>\<open>BETA\<close>;
  the operator names \<^verbatim>\<open>BETA\<close> as the beta column and \<^verbatim>\<open>A1\<close> as the effect allele column,
  chooses the identifier strategy and names \<^verbatim>\<open>SNP\<close> as the identifier column.  One of its two
  identifiers is in the panel.
\<close>

definition example_other_weights :: dataframe where
  "example_other_weights =
     \<lparr>index_name = [], index = [CInt 0, CInt 1],
      columns = [(''SNP'', [CStr ''rs1'', CStr ''rs2'']),
                 (''A1'', [CStr ''A'', CStr ''T'']),
                 (''BETA'', [CFloat (12345 / 100000), CFloat (- 73 / 1000000)])]\<rparr>"

definition example_other_world :: world where
  "example_other_world =
     \<lparr>answers = [''BETA'', ''A1'', ''rsid'', ''SNP''],
      disk = example_disk(''other.txt'' \<mapsto> WeightMatrix example_other_weights),
      console = [], float_str = (\<lambda>_. []),
      processes = (\<lambda>cmd d. Some (0, [], d))\<rparr>"

definition example_other_arguments :: arguments where
  "example_other_arguments =
     \<lparr>genetic = Some ''panel'', prs_wm = Some ''other.txt'', out = Some ''result''\<rparr>"

text \<open>
  A panel that carries both identifiers of \<open>example_weights\<close>, on a machine where no program
  can be started (\<^verbatim>\<open>plink\<close> is not installed).
\<close>

definition example_matching_panel :: "variant list" where
  "example_matching_panel =
     [example_variant ''1'' ''rs1'' 100, example_variant ''2'' ''rs2'' 200]"

definition example_unstartable_world :: world where
  "example_unstartable_world =
     example_world\<lparr>disk := example_disk(''panel.bim'' \<mapsto> Bim example_matching_panel),
                   processes := (\<lambda>cmd d. None)\<rparr>"

section \<open>Basic facts about programs\<close>

lemmas prog_defs = ret_def raise_def lift_def bindP_def thenP_def emit_def gets_def exit_def
  printout_def

lemma half_less_iff: "((50 / 100 :: rat) * of_nat n < of_nat k) = (n < 2 * k)"
proof -
  have "((50 / 100 :: rat) * of_nat n < of_nat k) = ((of_nat n :: rat) < of_nat (2 * k))"
    by (simp add: field_simps)
  then show ?thesis
    by (simp only: of_nat_less_iff)
qed

section \<open>The concordance verdict\<close>

text \<open>
  C1.  On a keyed weight table, \<^verbatim>\<open>check_the_files_match\<close> accepts exactly when the number
  of distinct keys shared with the identifier column of the panel (the size of the
  intersection of the two sets of values) is strictly greater than half the number of weight
  rows; when it is exactly half, the verdict is rejected.  (The source compares the integer
  count with the float \<^verbatim>\<open>0.50 * n\<close>, which is exact for every row count below \<^verbatim>\<open>2**53\<close>.)
\<close>

theorem check_the_files_match_verdict:
  assumes "getitem pgscatalog_df ''pos_key'' = Inr keys"
  shows "fst (check_the_files_match pgscatalog_df plink_variants_df w)
           = Inr (length (index pgscatalog_df)
                    < 2 * card (set (map rsid plink_variants_df) \<inter> set keys))
         \<and> (2 * card (set (map rsid plink_variants_df) \<inter> set keys)
               = length (index pgscatalog_df)
             \<longrightarrow> fst (check_the_files_match pgscatalog_df plink_variants_df w) = Inr False)"
  using assms
  by (simp add: check_the_files_match_def prog_defs Let_def half_less_iff)

theorem check_the_files_match_verdict_witness:
  "getitem example_keyed ''pos_key'' = Inr [CStr ''rs1'', CStr ''rs2'']
   \<and> fst (check_the_files_match example_keyed example_panel example_world) = Inr False"
proof -
  have h: "getitem example_keyed ''pos_key'' = Inr [CStr ''rs1'', CStr ''rs2'']"
    by code_simp
  have c: "card (set (map rsid example_panel) \<inter> set [CStr ''rs1'', CStr ''rs2'']) = 1"
    by code_simp
  have n: "length (index example_keyed) = 2"
    by code_simp
  note t = check_the_files_match_verdict [OF h, of example_panel example_world, unfolded c n]
  show ?thesis
    using h t by simp
qed

text \<open>
  C9.  On a weight table without rows the verdict is never accepted: a keyed table is
  rejected, and nothing is reported, so the ratio (a division by zero) is not computed.
\<close>

theorem empty_weight_table_rejected:
  assumes "wf_frame pgscatalog_df" and "index pgscatalog_df = []"
  shows "fst (check_the_files_match pgscatalog_df plink_variants_df w) \<noteq> Inr True
         \<and> (getitem pgscatalog_df ''pos_key'' \<noteq> Inl (KeyError ''pos_key'')
              \<longrightarrow> check_the_files_match pgscatalog_df plink_variants_df w = (Inr False, w))"
proof (cases "map_of (columns pgscatalog_df) ''pos_key''")
  case None
  then show ?thesis
    by (simp add: check_the_files_match_def prog_defs getitem_def)
next
  case (Some keys)
  then have "(''pos_key'', keys) \<in> set (columns pgscatalog_df)"
    by (rule map_of_SomeD)
  with assms have "keys = []"
    by (auto simp: wf_frame_def list_all_iff)
  with Some assms(2) show ?thesis
    by (simp add: check_the_files_match_def prog_defs getitem_def)
qed

theorem empty_weight_table_rejected_witness:
  "wf_frame (take_rows [] example_keyed) \<and> index (take_rows [] example_keyed) = []
   \<and> getitem (take_rows [] example_keyed) ''pos_key'' \<noteq> Inl (KeyError ''pos_key'')
   \<and> check_the_files_match (take_rows [] example_keyed) example_panel example_world
       = (Inr False, example_world)"
proof -
  have h1: "wf_frame (take_rows [] example_keyed)"
    by code_simp
  have h2: "index (take_rows [] example_keyed) = []"
    by code_simp
  have h3: "getitem (take_rows [] example_keyed) ''pos_key'' \<noteq> Inl (KeyError ''pos_key'')"
    by code_simp
  show ?thesis
    using h1 h2 h3 empty_weight_table_rejected [OF h1 h2, of example_panel example_world]
    by simp
qed

section \<open>The identifier strategy\<close>

lemma set_unique: "set (unique xs) = set xs"
  by (induction xs) auto

lemma distinct_unique: "distinct (unique xs)"
  by (induction xs) (auto simp: set_unique)

lemma length_unique_one: "(length (unique xs) = 1) = (\<exists>a. set xs = {a})"
proof
  assume "length (unique xs) = 1"
  then obtain a where "unique xs = [a]"
    by (cases "unique xs") auto
  then have "set (unique xs) = {a}"
    by simp
  then show "\<exists>a. set xs = {a}"
    by (auto simp: set_unique)
next
  assume "\<exists>a. set xs = {a}"
  then obtain a where a: "set xs = {a}" ..
  have d: "distinct (unique xs)" and s: "set (unique xs) = {a}"
    using a by (simp_all add: distinct_unique set_unique)
  from d have "card (set (unique xs)) = length (unique xs)"
    by (rule distinct_card)
  with s show "length (unique xs) = 1"
    by simp
qed

text \<open>
  The check at the head of \<^verbatim>\<open>prep_keys_rsid\<close> holds exactly when the first identifier is
  the sentinel and every identifier is the sentinel or missing.
\<close>

lemma fires_iff:
  "(nunique s = 1 \<and> hd (unique s) = CStr ''.'')
     = (s \<noteq> [] \<and> hd s = CStr ''.'' \<and> (\<forall>c\<in>set s. c = CStr ''.'' \<or> c = CNaN))"
proof (cases s)
  case Nil
  then show ?thesis by (simp add: nunique_def)
next
  case (Cons a as)
  then have ne: "s \<noteq> []" and hs: "hd s = a"
    by simp_all
  have h: "hd (unique s) = a"
    using Cons by simp
  have n: "(nunique s = 1) = (\<exists>b. set (filter (\<lambda>c. c \<noteq> CNaN) s) = {b})"
    by (simp only: nunique_def length_unique_one)
  have e: "(\<exists>b. set (filter (\<lambda>c. c \<noteq> CNaN) s) = {b})
             = (\<forall>c\<in>set s. c = CStr ''.'' \<or> c = CNaN)"
    if "a = CStr ''.''"
    using Cons that by auto
  show ?thesis
    unfolding h n using ne hs e by blast
qed

lemma Prompt_ask_Inr:
  assumes "Prompt_ask choices w = (Inr c, w')"
  shows "c \<in> set choices \<and> (\<exists>rest. w' = w\<lparr>answers := rest\<rparr>)"
proof -
  obtain a rest where d: "dropWhile (\<lambda>a. strip a \<notin> set choices) (answers w) = a # rest"
    and c: "c = strip a" and w': "w' = w\<lparr>answers := rest\<rparr>"
    using assms by (auto simp: Prompt_ask_def split: list.splits)
  from d have "\<not> strip a \<notin> set choices"
    using hd_dropWhile [of "\<lambda>a. strip a \<notin> set choices" "answers w"] by simp
  with c w' show ?thesis by auto
qed

lemma strip_plain:
  assumes "s \<noteq> []" and "\<not> is_space (hd s)" and "\<not> is_space (last s)"
  shows "strip s = s"
proof -
  from assms(1,2) have a: "dropWhile is_space s = s"
    by (cases s) simp_all
  from assms(1,3) have "\<not> is_space (hd (rev s))"
    by (simp add: hd_rev)
  with assms(1) have "dropWhile is_space (rev s) = rev s"
    by (cases "rev s") simp_all
  with a show ?thesis
    by (simp add: strip_def)
qed

lemma getitem_column:
  assumes "c \<in> set (map fst (columns df))"
  shows "\<exists>s. getitem df c = Inr s"
proof -
  from assms have "map_of (columns df) c \<noteq> None"
    by (simp add: map_of_eq_None_iff)
  then show ?thesis
    by (auto simp: getitem_def)
qed

text \<open>
  C4.  When the panel has at least one record and every record carries the identifier
  \<^verbatim>\<open>"."\<close>, the identifier strategy prints the diagnostic, which says that the panel has no
  variant identifiers and has to be annotated, and exits with status 30.  Within
  \<^verbatim>\<open>preprocess_data\<close>, once the operator has chosen \<^verbatim>\<open>rsid\<close>, that is all that happens: no
  further prompt is answered, no key is derived, nothing is written, so the locus strategy
  is not tried instead.
\<close>

theorem unannotated_panel_fails_fast:
  assumes "plink_variants_df \<noteq> []"
    and "\<forall>v\<in>set plink_variants_df. rsid v = CStr ''.''"
  shows "prep_keys_rsid pgscatalog_df plink_variants_df w
           = (Inl (Exit 30),
              w\<lparr>console := console w @
                  [Printout ''ERROR: Your plink data have no variants IDs at all.'',
                   Printout (''ERROR: Ask your data supplier (probably the phenomics platform) ''
                             @ ''to annotate it using dbSNP,''),
                   Printout (''ERROR: or at least assign the dummy 'chrom:pos' ids to the SNPs, ''
                             @ ''if you know what you are doing.''),
                   Printout (''ERROR: This script do *not* need *dbSNP* variant IDs, ''
                             @ ''but it *does* need *some* IDs.''),
                   Printout ''---'',
                   Printout ''P.S. We do *not* recommend using any kind of non-dbSNP ids,'',
                   Printout ('' because your colleagues' scripts may, unfortunately, ''
                             @ ''rely on dbSNP annotation.''),
                   Printout ('' If you are ok with having 'chrom:pos' encoding and you think that ''
                             @ ''you know what you are doing,''),
                   Printout ('' then you must be able to construct the annotation command ''
                             @ ''using bash 'cut' and 'paste' yourself.'')]\<rparr>)
         \<and> (\<forall>w1. Prompt_ask [''rsid'', ''pos''] w0 = (Inr ''rsid'', w1) \<longrightarrow>
               preprocess_data pgscatalog_df plink_variants_df processed_wm_text_file w0
                 = (Inl (Exit 30),
                    w1\<lparr>console := console w1 @
                        [Printout (''Trying to match PGSCatalog data with plink data ''
                                   @ ''using rsID...''),
                         Printout ''ERROR: Your plink data have no variants IDs at all.'',
                         Printout (''ERROR: Ask your data supplier (probably the phenomics platform) ''
                                   @ ''to annotate it using dbSNP,''),
                         Printout (''ERROR: or at least assign the dummy 'chrom:pos' ids to the SNPs, ''
                                   @ ''if you know what you are doing.''),
                         Printout (''ERROR: This script do *not* need *dbSNP* variant IDs, ''
                                   @ ''but it *does* need *some* IDs.''),
                         Printout ''---'',
                         Printout ''P.S. We do *not* recommend using any kind of non-dbSNP ids,'',
                         Printout ('' because your colleagues' scripts may, unfortunately, ''
                                   @ ''rely on dbSNP annotation.''),
                         Printout ('' If you are ok with having 'chrom:pos' encoding and you think that ''
                                   @ ''you know what you are doing,''),
                         Printout ('' then you must be able to construct the annotation command ''
                                   @ ''using bash 'cut' and 'paste' yourself.'')]\<rparr>))"
proof -
  have f: "nunique (map rsid plink_variants_df) = 1
           \<and> hd (unique (map rsid plink_variants_df)) = CStr ''.''"
    unfolding fires_iff using assms by (cases plink_variants_df) auto
  then have a: "\<And>w. prep_keys_rsid pgscatalog_df plink_variants_df w
           = (Inl (Exit 30), w\<lparr>console := console w @ non_annotated_plink_file_error_lines\<rparr>)"
    by (simp add: prep_keys_rsid_def print_non_annotated_plink_file_error_def prog_defs)
  show ?thesis
    by (simp add: a preprocess_data_def bindP_def thenP_def printout_def emit_def
          non_annotated_plink_file_error_lines_def)
qed

theorem unannotated_panel_fails_fast_witness:
  "example_unannotated_panel \<noteq> []
   \<and> map rsid example_unannotated_panel = [CStr ''.'', CStr ''.'']
   \<and> prep_keys_rsid example_weights example_unannotated_panel example_keying_world
       = (Inl (Exit 30),
          example_keying_world\<lparr>console :=
            [Printout ''ERROR: Your plink data have no variants IDs at all.'',
             Printout (''ERROR: Ask your data supplier (probably the phenomics platform) ''
                       @ ''to annotate it using dbSNP,''),
             Printout (''ERROR: or at least assign the dummy 'chrom:pos' ids to the SNPs, ''
                       @ ''if you know what you are doing.''),
             Printout (''ERROR: This script do *not* need *dbSNP* variant IDs, ''
                       @ ''but it *does* need *some* IDs.''),
             Printout ''---'',
             Printout ''P.S. We do *not* recommend using any kind of non-dbSNP ids,'',
             Printout ('' because your colleagues' scripts may, unfortunately, ''
                       @ ''rely on dbSNP annotation.''),
             Printout ('' If you are ok with having 'chrom:pos' encoding and you think that ''
                       @ ''you know what you are doing,''),
             Printout ('' then you must be able to construct the annotation command ''
                       @ ''using bash 'cut' and 'paste' yourself.'')]\<rparr>)
   \<and> Prompt_ask [''rsid'', ''pos''] example_keying_world
       = (Inr ''rsid'', example_keying_world\<lparr>answers := [''rsID'']\<rparr>)
   \<and> preprocess_data example_weights example_unannotated_panel ''score.txt.annotated''
        example_keying_world
       = (Inl (Exit 30),
          example_keying_world\<lparr>answers := [''rsID''],
            console :=
              [Printout ''Trying to match PGSCatalog data with plink data using rsID...'',
               Printout ''ERROR: Your plink data have no variants IDs at all.'',
               Printout (''ERROR: Ask your data supplier (probably the phenomics platform) ''
                         @ ''to annotate it using dbSNP,''),
               Printout (''ERROR: or at least assign the dummy 'chrom:pos' ids to the SNPs, ''
                         @ ''if you know what you are doing.''),
               Printout (''ERROR: This script do *not* need *dbSNP* variant IDs, ''
                         @ ''but it *does* need *some* IDs.''),
               Printout ''---'',
               Printout ''P.S. We do *not* recommend using any kind of non-dbSNP ids,'',
               Printout ('' because your colleagues' scripts may, unfortunately, ''
                         @ ''rely on dbSNP annotation.''),
               Printout ('' If you are ok with having 'chrom:pos' encoding and you think that ''
                         @ ''you know what you are doing,''),
               Printout ('' then you must be able to construct the annotation command ''
                         @ ''using bash 'cut' and 'paste' yourself.'')]\<rparr>)"
proof -
  have h1: "example_unannotated_panel \<noteq> []"
    by (simp add: example_unannotated_panel_def)
  have m: "map rsid example_unannotated_panel = [CStr ''.'', CStr ''.'']"
    by (simp add: example_unannotated_panel_def example_variant_def)
  then have "set (map rsid example_unannotated_panel) = {CStr ''.''}"
    by simp
  then have h2: "\<forall>v\<in>set example_unannotated_panel. rsid v = CStr ''.''"
    by auto
  have c: "console example_keying_world = []"
    by (simp add: example_keying_world_def example_world_def)
  have p: "Prompt_ask [''rsid'', ''pos''] example_keying_world
             = (Inr ''rsid'', example_keying_world\<lparr>answers := [''rsID'']\<rparr>)"
    by (simp add: Prompt_ask_def strip_def is_space_def example_keying_world_def
          example_world_def)
  show ?thesis
    using h1 m p
      unannotated_panel_fails_fast [OF h1 h2, of example_weights example_keying_world
        example_keying_world "''score.txt.annotated''"]
    by (simp add: c)
qed

text \<open>
  C10.  \<^verbatim>\<open>prep_keys_rsid\<close> exits with status 30 exactly when the identifier column, missing
  values left out, holds the single value \<^verbatim>\<open>"."\<close> and starts with it.  When some record
  carries an identifier other than \<^verbatim>\<open>"."\<close>, it goes on: with a reply that names a column of
  the weight table it returns the table keyed by that column.
\<close>

theorem annotated_panel_proceeds:
  "(fst (prep_keys_rsid pgscatalog_df plink_variants_df w) = Inl (Exit 30))
     = (set (filter (\<lambda>c. c \<noteq> CNaN) (map rsid plink_variants_df)) = {CStr ''.''}
        \<and> take 1 (map rsid plink_variants_df) = [CStr ''.''])
   \<and> ((\<exists>v\<in>set plink_variants_df. rsid v \<noteq> CStr ''.'' \<and> rsid v \<noteq> CNaN) \<longrightarrow>
        fst (prep_keys_rsid pgscatalog_df plink_variants_df w) \<noteq> Inl (Exit 30)
        \<and> (\<forall>c w1. Prompt_ask (map fst (columns pgscatalog_df)) w = (Inr c, w1) \<longrightarrow>
              (\<exists>ids. getitem pgscatalog_df c = Inr ids
                 \<and> prep_keys_rsid pgscatalog_df plink_variants_df w
                     = (Inr (setitem pgscatalog_df ''pos_key''
                               (map (\<lambda>x. CStr (astype_str (float_str w1) x)) ids)), w1))))"
proof -
  let ?s = "map rsid plink_variants_df"
  let ?fires = "nunique ?s = 1 \<and> hd (unique ?s) = CStr ''.''"
  have exit_iff: "(fst (prep_keys_rsid pgscatalog_df plink_variants_df w) = Inl (Exit 30)) = ?fires"
    by (auto simp: prep_keys_rsid_def prog_defs Prompt_ask_def getitem_def
                   print_non_annotated_plink_file_error_def
             split: list.splits option.splits)
  have shape: "?fires = (set (filter (\<lambda>c. c \<noteq> CNaN) ?s) = {CStr ''.''}
                          \<and> take 1 ?s = [CStr ''.''])"
    unfolding fires_iff by (cases ?s) auto
  have other: "\<not> ?fires" if "\<exists>v\<in>set plink_variants_df. rsid v \<noteq> CStr ''.'' \<and> rsid v \<noteq> CNaN"
    unfolding fires_iff using that by auto
  have proceeds: "\<exists>ids. getitem pgscatalog_df c = Inr ids
                 \<and> prep_keys_rsid pgscatalog_df plink_variants_df w
                     = (Inr (setitem pgscatalog_df ''pos_key''
                               (map (\<lambda>x. CStr (astype_str (float_str w1) x)) ids)), w1)"
    if nf: "\<not> ?fires" and ask: "Prompt_ask (map fst (columns pgscatalog_df)) w = (Inr c, w1)"
    for c w1
  proof -
    from Prompt_ask_Inr [OF ask] obtain ids where ids: "getitem pgscatalog_df c = Inr ids"
      using getitem_column by blast
    from nf ask ids show ?thesis
      by (auto simp: prep_keys_rsid_def prog_defs)
  qed
  show ?thesis
    using exit_iff shape other proceeds by blast
qed

theorem annotated_panel_proceeds_witness:
  "rsid (hd example_panel) = CStr ''rs1''
   \<and> Prompt_ask (map fst (columns example_weights)) (example_world\<lparr>answers := [''rsID'']\<rparr>)
       = (Inr ''rsID'', example_world\<lparr>answers := []\<rparr>)
   \<and> fst (prep_keys_rsid example_weights example_panel (example_world\<lparr>answers := [''rsID'']\<rparr>))
       \<noteq> Inl (Exit 30)
   \<and> prep_keys_rsid example_weights example_panel (example_world\<lparr>answers := [''rsID'']\<rparr>)
       = (Inr example_keyed, example_world\<lparr>answers := []\<rparr>)
   \<and> fst (prep_keys_rsid example_weights example_unannotated_panel example_world)
       = Inl (Exit 30)"
proof -
  have r: "rsid (hd example_panel) = CStr ''rs1''"
    by (simp add: example_panel_def example_variant_def)
  have "hd example_panel \<in> set example_panel"
    by (simp add: example_panel_def)
  with r have h: "\<exists>v\<in>set example_panel. rsid v \<noteq> CStr ''.'' \<and> rsid v \<noteq> CNaN"
    by (intro bexI [of _ "hd example_panel"]) simp_all
  have p: "Prompt_ask (map fst (columns example_weights)) (example_world\<lparr>answers := [''rsID'']\<rparr>)
             = (Inr ''rsID'', example_world\<lparr>answers := []\<rparr>)"
    by (simp add: Prompt_ask_def strip_def is_space_def example_weights_def)
  have g: "getitem example_weights ''rsID'' = Inr [CStr ''rs1'', CStr ''rs2'']"
    by (simp add: getitem_def example_weights_def)
  have u: "set (filter (\<lambda>c. c \<noteq> CNaN) (map rsid example_unannotated_panel)) = {CStr ''.''}
           \<and> take 1 (map rsid example_unannotated_panel) = [CStr ''.'']"
    by (simp add: example_unannotated_panel_def example_variant_def)
  note t = annotated_panel_proceeds
             [of example_weights example_panel "example_world\<lparr>answers := [''rsID'']\<rparr>"]
  note t' = annotated_panel_proceeds [of example_weights example_unannotated_panel example_world]
  from t h p g
  have "fst (prep_keys_rsid example_weights example_panel (example_world\<lparr>answers := [''rsID'']\<rparr>))
          \<noteq> Inl (Exit 30)
        \<and> prep_keys_rsid example_weights example_panel (example_world\<lparr>answers := [''rsID'']\<rparr>)
            = (Inr example_keyed, example_world\<lparr>answers := []\<rparr>)"
    by (auto simp: example_keyed_def astype_str_def)
  moreover from t' u
  have "fst (prep_keys_rsid example_weights example_unannotated_panel example_world)
          = Inl (Exit 30)"
    by blast
  ultimately show ?thesis
    using r p by blast
qed

section \<open>The locus strategy\<close>

lemma map_of_map_values:
  "map_of (map (\<lambda>(n, s). (n, f s)) al) k = map_option f (map_of al k)"
  by (induction al) auto

lemma update_map_values:
  "map (\<lambda>(n, s). (n, f s)) (AList.update k v al)
     = AList.update k (f v) (map (\<lambda>(n, s). (n, f s)) al)"
  by (induction al) auto

lemma getitem_take_rows:
  "getitem df c = Inr s \<Longrightarrow> getitem (take_rows ps df) c = Inr (map (\<lambda>i. s ! i) ps)"
  by (auto simp: getitem_def take_rows_def map_of_map_values split: option.splits)

lemma setitem_take_rows:
  "take_rows ps (setitem df c s) = setitem (take_rows ps df) c (map (\<lambda>i. s ! i) ps)"
  by (simp add: take_rows_def setitem_def update_map_values)

lemma getitem_setitem: "getitem (setitem df c s) c = Inr s"
  by (simp add: getitem_def setitem_def update_conv')

lemma getitem_length:
  assumes "wf_frame df" and "getitem df c = Inr s"
  shows "length s = length (index df)"
proof -
  from assms(2) have "map_of (columns df) c = Some s"
    by (simp add: getitem_def split: option.splits)
  then have "(c, s) \<in> set (columns df)"
    by (rule map_of_SomeD)
  with assms(1) show ?thesis
    by (auto simp: wf_frame_def list_all_iff)
qed

lemma map2_rows:
  assumes "\<forall>i\<in>set ps. i < length xs \<and> i < length ys"
  shows "map2 f (map (\<lambda>i. xs ! i) ps) (map (\<lambda>i. ys ! i) ps)
           = map (\<lambda>i. map2 f xs ys ! i) ps"
  using assms by (induction ps) auto

lemma prep_keys_chrompos_Inr:
  assumes "prep_keys_chrompos df plink w = (Inr df', w')"
  shows "\<exists>cc w1 pc chroms positions.
           Prompt_ask (map fst (columns df)) w = (Inr cc, w1)
           \<and> Prompt_ask (map fst (columns df)) w1 = (Inr pc, w')
           \<and> getitem df cc = Inr chroms \<and> getitem df pc = Inr positions
           \<and> df' = setitem df ''pos_key''
                      (map2 (\<lambda>c p. CStr (astype_str (float_str w') c @ '':''
                                           @ astype_str (float_str w') p))
                            chroms positions)"
  using assms
  by (auto simp: prep_keys_chrompos_def prog_defs split: prod.splits sum.splits)

lemma prep_keys_chrompos_run:
  assumes "Prompt_ask (map fst (columns df)) w = (Inr cc, w1)"
    and "Prompt_ask (map fst (columns df)) w1 = (Inr pc, w')"
    and "getitem df cc = Inr chroms" and "getitem df pc = Inr positions"
  shows "prep_keys_chrompos df plink w
           = (Inr (setitem df ''pos_key''
                     (map2 (\<lambda>c p. CStr (astype_str (float_str w') c @ '':''
                                          @ astype_str (float_str w') p))
                           chroms positions)), w')"
  using assms by (simp add: prep_keys_chrompos_def prog_defs)

text \<open>
  C2, as the program has it.  With the locus strategy the operator names the chromosome
  column, then the position column, and the key of a weight row is the text of its
  chromosome cell, a colon and the text of its position cell, in this order; no \<^verbatim>\<open>chr\<close>
  prefix is stripped.  The key of a row depends on that row alone: keying the rows taken in
  any order (or any selection of them) gives the keyed rows in that order.  The panel is not
  keyed: the strategy does not read it, and the verdict reads only its identifier column.
\<close>

theorem locus_keys_rowwise:
  assumes "wf_frame df"
    and "\<forall>i\<in>set ps. i < length (index df)"
    and "Prompt_ask (map fst (columns df)) w = (Inr chrom_column, w1)"
    and "Prompt_ask (map fst (columns df)) w1 = (Inr pos_column, w')"
    and "map rsid plink' = map rsid plink"
  shows "\<exists>chroms positions df'.
           getitem df chrom_column = Inr chroms \<and> getitem df pos_column = Inr positions
           \<and> df' = setitem df ''pos_key''
                     (map2 (\<lambda>c p. CStr (astype_str (float_str w) c @ '':''
                                          @ astype_str (float_str w) p))
                           chroms positions)
           \<and> prep_keys_chrompos df plink w = (Inr df', w')
           \<and> prep_keys_chrompos (take_rows ps df) plink' w = (Inr (take_rows ps df'), w')
           \<and> check_the_files_match df' plink' w' = check_the_files_match df' plink w'"
proof -
  note a1 = assms(3) and a2 = assms(4)
  have fs: "float_str w' = float_str w"
    using Prompt_ask_Inr [OF a1] Prompt_ask_Inr [OF a2] by auto
  from Prompt_ask_Inr [OF a1] obtain chroms where gc: "getitem df chrom_column = Inr chroms"
    using getitem_column by blast
  from Prompt_ask_Inr [OF a2] obtain positions where gp: "getitem df pos_column = Inr positions"
    using getitem_column by blast
  let ?key = "\<lambda>c p. CStr (astype_str (float_str w') c @ '':'' @ astype_str (float_str w') p)"
  define df' where "df' = setitem df ''pos_key'' (map2 ?key chroms positions)"
  have names: "map fst (columns (take_rows ps df)) = map fst (columns df)"
    by (simp add: take_rows_def comp_def case_prod_beta)
  have len: "length chroms = length (index df)" "length positions = length (index df)"
    using getitem_length [OF assms(1)] gc gp by simp_all
  have rows: "map2 ?key (map (\<lambda>i. chroms ! i) ps) (map (\<lambda>i. positions ! i) ps)
                = map (\<lambda>i. map2 ?key chroms positions ! i) ps"
    by (rule map2_rows) (use assms(2) len in simp)
  have b1: "Prompt_ask (map fst (columns (take_rows ps df))) w = (Inr chrom_column, w1)"
    and b2: "Prompt_ask (map fst (columns (take_rows ps df))) w1 = (Inr pos_column, w')"
    using a1 a2 names by simp_all
  have zero: "prep_keys_chrompos df plink w = (Inr df', w')"
    unfolding df'_def by (rule prep_keys_chrompos_run [OF a1 a2 gc gp])
  have "prep_keys_chrompos (take_rows ps df) plink' w
          = (Inr (setitem (take_rows ps df) ''pos_key''
                    (map2 ?key (map (\<lambda>i. chroms ! i) ps) (map (\<lambda>i. positions ! i) ps))), w')"
    by (rule prep_keys_chrompos_run [OF b1 b2 getitem_take_rows [OF gc] getitem_take_rows [OF gp]])
  then have first: "prep_keys_chrompos (take_rows ps df) plink' w = (Inr (take_rows ps df'), w')"
    by (simp only: rows df'_def setitem_take_rows)
  have "length plink' = length plink"
    using assms(5) by (metis length_map)
  then have third: "check_the_files_match df' plink' w' = check_the_files_match df' plink w'"
    by (simp add: check_the_files_match_def assms(5))
  have shape: "df' = setitem df ''pos_key''
                     (map2 (\<lambda>c p. CStr (astype_str (float_str w) c @ '':''
                                          @ astype_str (float_str w) p))
                           chroms positions)"
    by (simp add: df'_def fs)
  from gc gp shape zero first third show ?thesis
    by blast
qed

theorem locus_keys_rowwise_witness:
  "wf_frame example_weights
   \<and> Prompt_ask (map fst (columns example_weights)) example_locus_world
       = (Inr ''chr_name'', example_world\<lparr>answers := [''chr_position'']\<rparr>)
   \<and> Prompt_ask (map fst (columns example_weights))
        (example_world\<lparr>answers := [''chr_position'']\<rparr>)
       = (Inr ''chr_position'', example_world\<lparr>answers := []\<rparr>)
   \<and> prep_keys_chrompos example_weights example_locus_panel example_locus_world
       = (Inr example_locus_keyed, example_world\<lparr>answers := []\<rparr>)
   \<and> getitem example_locus_keyed ''pos_key'' = Inr [CStr ''chr1:100'', CStr ''2:200'']
   \<and> prep_keys_chrompos (take_rows [1, 0] example_weights) example_locus_panel
        example_locus_world
       = (Inr (take_rows [1, 0] example_locus_keyed), example_world\<lparr>answers := []\<rparr>)
   \<and> getitem (take_rows [1, 0] example_locus_keyed) ''pos_key''
       = Inr [CStr ''2:200'', CStr ''chr1:100'']"
proof -
  have h1: "wf_frame example_weights"
    by (simp add: wf_frame_def example_weights_def)
  have h2: "\<forall>i\<in>set [1, 0]. i < length (index example_weights)"
    by (simp add: example_weights_def)
  have c: "columns example_weights
             = [(''rsID'', [CStr ''rs1'', CStr ''rs2'']),
                (''chr_name'', [CStr ''chr1'', CStr ''2'']),
                (''chr_position'', [CInt 100, CInt 200]),
                (''effect_allele'', [CStr ''A'', CStr ''T'']),
                (''effect_weight'', [CFloat (12345 / 100000), CFloat (- 73 / 1000000)])]"
    by (simp add: example_weights_def)
  have s100: "str_int 100 = ''100''" and s200: "str_int 200 = ''200''"
    by code_simp+
  have a1: "Prompt_ask (map fst (columns example_weights)) example_locus_world
              = (Inr ''chr_name'', example_world\<lparr>answers := [''chr_position'']\<rparr>)"
    by (simp add: Prompt_ask_def strip_def is_space_def example_locus_world_def c)
  have a2: "Prompt_ask (map fst (columns example_weights))
              (example_world\<lparr>answers := [''chr_position'']\<rparr>)
              = (Inr ''chr_position'', example_world\<lparr>answers := []\<rparr>)"
    by (simp add: Prompt_ask_def strip_def is_space_def c)
  have h5: "map rsid example_locus_panel = map rsid example_locus_panel"
    by (rule refl)
  have k: "getitem example_locus_keyed ''pos_key'' = Inr [CStr ''chr1:100'', CStr ''2:200'']"
    by (simp add: example_locus_keyed_def getitem_setitem)
  from locus_keys_rowwise [OF h1 h2 a1 a2 h5]
  obtain chroms positions df' where
    gc: "getitem example_weights ''chr_name'' = Inr chroms" and
    gp: "getitem example_weights ''chr_position'' = Inr positions" and
    df': "df' = setitem example_weights ''pos_key''
                  (map2 (\<lambda>c p. CStr (astype_str (float_str example_locus_world) c @ '':''
                                       @ astype_str (float_str example_locus_world) p))
                        chroms positions)" and
    r0: "prep_keys_chrompos example_weights example_locus_panel example_locus_world
           = (Inr df', example_world\<lparr>answers := []\<rparr>)" and
    r1: "prep_keys_chrompos (take_rows [1, 0] example_weights) example_locus_panel
           example_locus_world
           = (Inr (take_rows [1, 0] df'), example_world\<lparr>answers := []\<rparr>)"
    by blast
  from gc gp have "chroms = [CStr ''chr1'', CStr ''2'']" and "positions = [CInt 100, CInt 200]"
    by (simp_all add: getitem_def c)
  with df' have e: "df' = example_locus_keyed"
    by (simp add: example_locus_keyed_def astype_str_def s100 s200)
  have t: "getitem (take_rows [1, 0] example_locus_keyed) ''pos_key''
             = Inr [CStr ''2:200'', CStr ''chr1:100'']"
    using getitem_take_rows [OF k, of "[1, 0]"] by simp
  from h1 a1 a2 k t r0 r1 show ?thesis
    unfolding e by blast
qed

text \<open>
  The claim as the specification states it fails: the key of the weight row on chromosome
  \<^verbatim>\<open>chr1\<close> at position 100 keeps the prefix, so it differs from the normalised key
  \<^verbatim>\<open>1:100\<close> that the panel carries, and the table is rejected where the normalised keys would
  all be shared.
\<close>

theorem locus_keys_not_normalised_counterexample:
  "prep_keys_chrompos example_weights example_locus_panel example_locus_world
     = (Inr example_locus_keyed, example_world\<lparr>answers := []\<rparr>)
   \<and> getitem example_locus_keyed ''pos_key'' = Inr [CStr ''chr1:100'', CStr ''2:200'']
   \<and> spec_locus_key (float_str example_world) (CStr ''chr1'') (CInt 100) = CStr ''1:100''
   \<and> map rsid example_locus_panel = [CStr ''1:100'', CStr ''2:200'']
   \<and> fst (check_the_files_match example_locus_keyed example_locus_panel
             (example_world\<lparr>answers := []\<rparr>)) = Inr False"
proof -
  have c: "columns example_weights
             = [(''rsID'', [CStr ''rs1'', CStr ''rs2'']),
                (''chr_name'', [CStr ''chr1'', CStr ''2'']),
                (''chr_position'', [CInt 100, CInt 200]),
                (''effect_allele'', [CStr ''A'', CStr ''T'']),
                (''effect_weight'', [CFloat (12345 / 100000), CFloat (- 73 / 1000000)])]"
    by (simp add: example_weights_def)
  have s100: "str_int 100 = ''100''" and s200: "str_int 200 = ''200''"
    by code_simp+
  have k: "prep_keys_chrompos example_weights example_locus_panel example_locus_world
              = (Inr example_locus_keyed, example_world\<lparr>answers := []\<rparr>)"
    by (simp add: prep_keys_chrompos_def prog_defs Prompt_ask_def strip_def is_space_def
          example_locus_world_def c getitem_def example_locus_keyed_def astype_str_def s100 s200)
  have g: "getitem example_locus_keyed ''pos_key'' = Inr [CStr ''chr1:100'', CStr ''2:200'']"
    by (simp add: example_locus_keyed_def getitem_setitem)
  have n: "spec_locus_key (float_str example_world) (CStr ''chr1'') (CInt 100) = CStr ''1:100''"
    by (simp add: spec_locus_key_def spec_chrom_cutter_def astype_str_def s100)
  have m: "map rsid example_locus_panel = [CStr ''1:100'', CStr ''2:200'']"
    by (simp add: example_locus_panel_def example_variant_def)
  have v: "fst (check_the_files_match example_locus_keyed example_locus_panel
                  (example_world\<lparr>answers := []\<rparr>)) = Inr False"
    by code_simp
  from k g n m v show ?thesis
    by blast
qed

section \<open>The join artifact\<close>

lemma digit_char_mod: "digit_char (k mod 10) \<in> set ''0123456789''"
proof -
  have "nat (k mod 10) < length ''0123456789''"
    by simp
  then show ?thesis
    unfolding digit_char_def by (rule nth_mem)
qed

text \<open>
  A float is written with an optional sign, one digit, the point, four digits and the
  exponent: four digits after the decimal point, five in all.
\<close>

lemma float_format_e4_shape:
  "\<exists>d0 d1 d2 d3 d4 rest.
     float_format_e4 x
       = (if x < 0 then ''-'' else []) @ [d0, CHR ''.'', d1, d2, d3, d4, CHR ''e''] @ rest
     \<and> {d0, d1, d2, d3, d4} \<subseteq> set ''0123456789''"
proof (cases "x = 0")
  case True
  have "float_format_e4 x
          = (if x < 0 then ''-'' else [])
            @ [CHR ''0'', CHR ''.'', CHR ''0'', CHR ''0'', CHR ''0'', CHR ''0'', CHR ''e'']
            @ ''+00''"
    using True by (simp add: float_format_e4_def)
  moreover have "{CHR ''0'', CHR ''0'', CHR ''0'', CHR ''0'', CHR ''0''}
                   \<subseteq> set ''0123456789''"
    by simp
  ultimately show ?thesis
    by blast
next
  case False
  obtain m e where me: "mantissa_exponent \<bar>x\<bar> = (m, e)"
    by (cases "mantissa_exponent \<bar>x\<bar>")
  let ?d0 = "digit_char (m div 10000 mod 10)" and ?d1 = "digit_char (m div 1000 mod 10)"
    and ?d2 = "digit_char (m div 100 mod 10)" and ?d3 = "digit_char (m div 10 mod 10)"
    and ?d4 = "digit_char (m mod 10)"
  have "float_format_e4 x
          = (if x < 0 then ''-'' else [])
            @ [?d0, CHR ''.'', ?d1, ?d2, ?d3, ?d4, CHR ''e''] @ format_exponent e"
    using False me by (simp add: float_format_e4_def format_mantissa_def)
  moreover have "{?d0, ?d1, ?d2, ?d3, ?d4} \<subseteq> set ''0123456789''"
    by (simp only: insert_subset empty_subsetI digit_char_mod simp_thms)
  ultimately show ?thesis
    by blast
qed

lemma select_columns_Inr:
  assumes "select_columns df names = Inr artifact"
  shows "artifact = df\<lparr>columns := map (\<lambda>n. (n, the (map_of (columns df) n))) names\<rparr>
         \<and> (\<forall>n\<in>set names. getitem df n = Inr (the (map_of (columns df) n)))"
proof -
  from assms have none: "filter (\<lambda>n. map_of (columns df) n = None) names = []"
    and art: "artifact = df\<lparr>columns := map (\<lambda>n. (n, the (map_of (columns df) n))) names\<rparr>"
    by (auto simp: select_columns_def split: list.splits)
  from none have "\<forall>n\<in>set names. map_of (columns df) n \<noteq> None"
    by (simp add: filter_empty_conv)
  then have "\<forall>n\<in>set names. getitem df n = Inr (the (map_of (columns df) n))"
    by (auto simp: getitem_def)
  with art show ?thesis
    by blast
qed

text \<open>
  C3, as the program has it.  For a weight table that has the columns \<^verbatim>\<open>pos_key\<close>,
  \<^verbatim>\<open>effect_allele\<close> and \<^verbatim>\<open>effect_weight\<close>, the written artifact has a header line and then
  one line for each row of the table, in the order of the table and with nothing merged or
  left out; after its first field, the line of a row holds the key, the effect allele and
  the effect weight of that row, in this order.  A floating-point weight is rendered by
  \<^verbatim>\<open>%.4e\<close>: a sign if negative, one digit, the point, four digits, and the exponent.
\<close>

theorem join_artifact_rows:
  assumes "wf_frame df"
    and "select_columns df [''pos_key'', ''effect_allele'', ''effect_weight''] = Inr artifact"
  shows "\<exists>keys alleles weights.
           getitem df ''pos_key'' = Inr keys \<and> getitem df ''effect_allele'' = Inr alleles
           \<and> getitem df ''effect_weight'' = Inr weights
           \<and> length keys = length (index df)
           \<and> length (csv_lines artifact) = Suc (length (index df))
           \<and> tl (hd (csv_lines artifact)) = [''pos_key'', ''effect_allele'', ''effect_weight'']
           \<and> (\<forall>i<length (index df).
                 tl (csv_lines artifact ! Suc i)
                   = [csv_field (keys ! i), csv_field (alleles ! i), csv_field (weights ! i)])
           \<and> (\<forall>x. \<exists>d0 d1 d2 d3 d4 rest.
                 csv_field (CFloat x)
                   = (if x < 0 then ''-'' else [])
                     @ [d0, CHR ''.'', d1, d2, d3, d4, CHR ''e''] @ rest
                 \<and> {d0, d1, d2, d3, d4} \<subseteq> set ''0123456789'')"
proof -
  let ?col = "\<lambda>n. the (map_of (columns df) n)"
  from select_columns_Inr [OF assms(2)]
  have art: "artifact = df\<lparr>columns := map (\<lambda>n. (n, ?col n))
                                         [''pos_key'', ''effect_allele'', ''effect_weight'']\<rparr>"
    and g: "getitem df ''pos_key'' = Inr (?col ''pos_key'')"
           "getitem df ''effect_allele'' = Inr (?col ''effect_allele'')"
           "getitem df ''effect_weight'' = Inr (?col ''effect_weight'')"
    by simp_all
  have len: "length (?col ''pos_key'') = length (index df)"
    using getitem_length [OF assms(1) g(1)] .
  have n: "length (csv_lines artifact) = Suc (length (index df))"
    by (simp add: csv_lines_def art)
  have h: "tl (hd (csv_lines artifact)) = [''pos_key'', ''effect_allele'', ''effect_weight'']"
    by (simp add: csv_lines_def art)
  have r: "\<forall>i<length (index df).
             tl (csv_lines artifact ! Suc i)
               = [csv_field (?col ''pos_key'' ! i), csv_field (?col ''effect_allele'' ! i),
                  csv_field (?col ''effect_weight'' ! i)]"
    by (simp add: csv_lines_def art)
  have f: "\<forall>x. \<exists>d0 d1 d2 d3 d4 rest.
                 csv_field (CFloat x)
                   = (if x < 0 then ''-'' else [])
                     @ [d0, CHR ''.'', d1, d2, d3, d4, CHR ''e''] @ rest
                 \<and> {d0, d1, d2, d3, d4} \<subseteq> set ''0123456789''"
    using float_format_e4_shape by (simp add: csv_field_def)
  from g len n h r f show ?thesis
    by blast
qed

theorem join_artifact_rows_witness:
  "wf_frame example_keyed
   \<and> select_columns example_keyed [''pos_key'', ''effect_allele'', ''effect_weight'']
       = Inr example_artifact
   \<and> length (csv_lines example_artifact) = 3
   \<and> tl (hd (csv_lines example_artifact)) = [''pos_key'', ''effect_allele'', ''effect_weight'']"
proof -
  have h1: "wf_frame example_keyed"
    by code_simp
  have h2: "select_columns example_keyed [''pos_key'', ''effect_allele'', ''effect_weight'']
              = Inr example_artifact"
    by code_simp
  have n: "length (index example_keyed) = 2"
    by code_simp
  from join_artifact_rows [OF h1 h2]
  have "length (csv_lines example_artifact) = Suc (length (index example_keyed))
        \<and> tl (hd (csv_lines example_artifact))
            = [''pos_key'', ''effect_allele'', ''effect_weight'']"
    by blast
  with h1 h2 n show ?thesis
    by simp
qed

text \<open>
  The claim as the specification states it fails on the two-row table: each line of the
  written file has four fields, the row label first, and the weight \<^verbatim>\<open>0.12345\<close> is written
  with five significant digits.
\<close>

theorem join_artifact_counterexample:
  "disk (snd (preprocess_data example_weights example_panel ''score.txt.annotated''
                example_keying_world)) ''score.txt.annotated''
     = Some (Csv [[[], ''pos_key'', ''effect_allele'', ''effect_weight''],
                  [''0'', ''rs1'', ''A'', ''1.2345e-01''],
                  [''1'', ''rs2'', ''T'', ''-7.3000e-05'']])"
  by code_simp

section \<open>Post-processing of the scores\<close>

lemma join_strings:
  "\<forall>c\<in>set ls. \<exists>s. c = CStr s \<Longrightarrow> \<exists>t. join sep ls = Inr t"
  by (induction sep ls rule: join.induct) auto

lemma label_filter:
  assumes "distinct (map IID df)"
  shows "filter (\<lambda>r. IID r \<notin> IID ` {x \<in> set df. P x}) df = filter (\<lambda>r. \<not> P r) df"
proof (rule filter_cong [OF refl])
  fix r
  assume r: "r \<in> set df"
  have "inj_on IID (set df)"
    using assms by (simp add: distinct_map)
  with r have "(IID r \<in> IID ` {x \<in> set df. P x}) = P r"
    by (auto dest: inj_onD)
  then show "(IID r \<notin> IID ` {x \<in> set df. P x}) = (\<not> P r)"
    by simp
qed

text \<open>
  When the sample labels are strings and no two rows share a label, \<^verbatim>\<open>plink_qc\<close> keeps
  exactly the rows whose count is not below 0.95 times the mean count of all rows.
\<close>

lemma plink_qc_string_labels:
  assumes "\<forall>r\<in>set df. \<exists>s. IID r = CStr s" and "distinct (map IID df)"
  shows "fst (plink_qc df w)
           = Inr (filter (\<lambda>r. \<not> of_int (CNT2 r)
                                  < (95 / 100 :: rat)
                                    * (of_int (sum_list (map CNT2 df)) / of_nat (length df)))
                         df)"
proof -
  define bad :: "score \<Rightarrow> bool" where
    "bad = (\<lambda>r. of_int (CNT2 r)
                  < (95 / 100 :: rat) * (of_int (sum_list (map CNT2 df)) / of_nat (length df)))"
  have unfolded: "plink_qc df
     = (if map IID (filter bad df) \<noteq> []
        then thenP (printout (''WARNING: The following samples has a lot of missing SNPs ''
                              @ ''(more than 5% of SNPs, available on average in other samples)''))
             (thenP (printout ''They will dropped from the following analysis'')
             (bindP (lift (join '','' (map IID (filter bad df)))) (\<lambda>names.
              thenP (printout names)
              (ret (filter (\<lambda>r. IID r \<notin> set (map IID (filter bad df))) df)))))
        else ret df)"
    unfolding plink_qc_def bad_def Let_def ..
  have goal: "fst (plink_qc df w) = Inr (filter (\<lambda>r. \<not> bad r) df)"
  proof (cases "filter bad df = []")
    case True
    then have "filter (\<lambda>r. \<not> bad r) df = df"
      by (simp add: filter_empty_conv)
    with True show ?thesis
      by (simp add: unfolded prog_defs)
  next
    case False
    have "\<forall>c\<in>set (map IID (filter bad df)). \<exists>s. c = CStr s"
      using assms(1) by auto
    then obtain t where t: "join '','' (map IID (filter bad df)) = Inr t"
      using join_strings by blast
    from False t show ?thesis
      by (simp add: unfolded prog_defs label_filter [OF assms(2)])
  qed
  then show ?thesis
    unfolding bad_def .
qed

lemma plink_qc_example:
  "fst (plink_qc example_profile example_world)
     = Inr [example_score (CStr ''S1'') 100, example_score (CStr ''S2'') 100]"
  by code_simp

text \<open>
  C7.  The rule of the claim is what \<^verbatim>\<open>plink_qc\<close> computes, but the function does not
  carry it out on every score table.  With integer sample labels (as pandas reads numeric
  \<^verbatim>\<open>IID\<close>s) and a sample below the threshold, joining the labels for the report raises
  \<^verbatim>\<open>TypeError\<close> and no sample is excluded.  With a label shared by two rows, dropping by label
  also removes the row whose count is not below the threshold.
\<close>

theorem plink_qc_numeric_labels_raise:
  "fst (plink_qc example_numeric_profile example_world) = Inl TypeError
   \<and> fst (plink_qc example_family_profile example_world)
       = Inr [example_score (CStr ''2'') 100, example_score (CStr ''3'') 100]"
  by code_simp

section \<open>Runs of \<^verbatim>\<open>preprocess_data\<close> and \<^verbatim>\<open>main\<close>\<close>

lemma bindP_assoc: "bindP (bindP m f) g = bindP m (\<lambda>x. bindP (f x) g)"
  by (auto simp: bindP_def fun_eq_iff split: prod.splits sum.splits)

lemma bindP_E:
  assumes "bindP m f w = (r, w')"
  obtains (fail) e where "m w = (Inl e, w')" and "r = Inl e"
        | (ok) x w1 where "m w = (Inr x, w1)" and "f x w1 = (r, w')"
  using assms by (auto simp: bindP_def split: prod.splits sum.splits)

lemma thenP_E:
  assumes "thenP m k w = (r, w')"
  obtains (fail) e where "m w = (Inl e, w')" and "r = Inl e"
        | (ok) w1 where "m w = (Inr (), w1)" and "k w1 = (r, w')"
  using assms unfolding thenP_def by (elim bindP_E) auto

lemma preprocess_data_alt:
  "preprocess_data pgscatalog_df0 plink_variants_df processed_wm_text_file =
     bindP (key_by_strategy pgscatalog_df0 plink_variants_df) (\<lambda>pgscatalog_df.
     bindP (check_the_files_match pgscatalog_df plink_variants_df) (\<lambda>was_match_successful.
     bindP (lift (select_columns pgscatalog_df [''pos_key'', ''effect_allele'', ''effect_weight'']))
       (\<lambda>artifact.
     thenP (to_csv artifact processed_wm_text_file)
       (if \<not> was_match_successful
        then thenP print_error_misaligned_files (exit 40)
        else ret ()))))"
  unfolding preprocess_data_def key_by_strategy_def bindP_assoc ..

subsection \<open>Which errors a step can end with\<close>

lemma raises_ret: "raises E (ret x)"
  by (simp add: raises_def ret_def)

lemma raises_raise: "E e \<Longrightarrow> raises E (raise e)"
  by (simp add: raises_def raise_def)

lemma raises_exit: "E (Exit c) \<Longrightarrow> raises E (exit c)"
  by (simp add: raises_def raise_def exit_def)

lemma raises_lift: "(\<And>e. r = Inl e \<Longrightarrow> E e) \<Longrightarrow> raises E (lift r)"
  by (simp add: raises_def lift_def)

lemma raises_emit: "raises E (emit evs)"
  by (simp add: raises_def emit_def)

lemma raises_printout: "raises E (printout s)"
  by (simp add: printout_def raises_emit)

lemma raises_gets: "raises E (gets f)"
  by (simp add: raises_def gets_def)

lemma raises_isfile: "raises E (isfile p)"
  by (simp add: raises_def isfile_def)

lemma raises_to_csv: "raises E (to_csv df p)"
  by (simp add: raises_def to_csv_def)

lemma raises_subprocess_run: "(\<And>p. E (FileNotFoundError p)) \<Longrightarrow> raises E (subprocess_run cmd)"
  by (auto simp: raises_def subprocess_run_def split: option.splits prod.splits)

lemma raises_Prompt_ask: "E EOFError \<Longrightarrow> raises E (Prompt_ask choices)"
  by (auto simp: raises_def Prompt_ask_def split: list.splits)

lemma raises_bindP: "raises E m \<Longrightarrow> (\<And>x. raises E (f x)) \<Longrightarrow> raises E (bindP m f)"
  unfolding raises_def by (metis bindP_E sum.inject(1))

lemma raises_thenP: "raises E m \<Longrightarrow> raises E k \<Longrightarrow> raises E (thenP m k)"
  by (simp add: thenP_def raises_bindP)

lemma raises_if: "(c \<Longrightarrow> raises E m) \<Longrightarrow> (\<not> c \<Longrightarrow> raises E k) \<Longrightarrow> raises E (if c then m else k)"
  by simp

lemmas raises_intros = raises_ret raises_raise raises_exit raises_emit raises_printout
  raises_gets raises_isfile raises_to_csv raises_subprocess_run raises_Prompt_ask
  raises_bindP raises_thenP raises_if

lemma raises_getitem: "(\<And>n. E (KeyError n)) \<Longrightarrow> raises E (lift (getitem df c))"
  by (rule raises_lift) (auto simp: getitem_def split: option.splits)

lemma raises_select_columns: "(\<And>n. E (KeyError n)) \<Longrightarrow> raises E (lift (select_columns df ns))"
  by (rule raises_lift) (auto simp: select_columns_def split: list.splits)

lemma raises_prep_keys_rsid:
  assumes "E (Exit 30)" and "E EOFError" and "\<And>n. E (KeyError n)"
  shows "raises E (prep_keys_rsid df plink)"
  unfolding prep_keys_rsid_def print_non_annotated_plink_file_error_def
  by (intro raises_intros raises_getitem assms)

lemma raises_prep_keys_chrompos:
  assumes "E EOFError" and "\<And>n. E (KeyError n)"
  shows "raises E (prep_keys_chrompos df plink)"
  unfolding prep_keys_chrompos_def
  by (intro raises_intros raises_getitem assms)

lemma raises_key_by_strategy:
  assumes "E (Exit 30)" and "E EOFError" and "\<And>n. E (KeyError n)" and "\<And>s. E (RuntimeError s)"
  shows "raises E (key_by_strategy df plink)"
  unfolding key_by_strategy_def
  by (intro raises_intros raises_prep_keys_rsid raises_prep_keys_chrompos assms)

lemma raises_check_the_files_match:
  assumes "\<And>n. E (KeyError n)"
  shows "raises E (check_the_files_match df plink)"
  unfolding check_the_files_match_def Let_def
  by (intro raises_intros raises_getitem assms)

lemma key_by_strategy_not_40: "key_by_strategy df plink w = (Inl e, w') \<Longrightarrow> e \<noteq> Exit 40"
  using raises_key_by_strategy [of "\<lambda>e. e \<noteq> Exit 40" df plink]
  by (simp add: raises_def) blast

lemma check_the_files_match_not_exit:
  "check_the_files_match df plink w = (Inl e, w') \<Longrightarrow> e \<noteq> Exit c"
  using raises_check_the_files_match [of "\<lambda>e. e \<noteq> Exit c" df plink]
  by (simp add: raises_def) blast

lemma select_columns_not_exit: "select_columns df ns = Inl e \<Longrightarrow> e \<noteq> Exit c"
  by (auto simp: select_columns_def split: list.splits)

text \<open>What \<^verbatim>\<open>preprocess_data\<close> does after the verdict.\<close>

lemma after_verdict:
  "thenP (to_csv artifact path)
     (if \<not> verdict then thenP print_error_misaligned_files (exit 40) else ret ()) w
   = (if verdict then Inr () else Inl (Exit 40),
      w\<lparr>disk := (disk w)(path \<mapsto> Csv (csv_lines artifact)),
        console := console w @ ToCsv path # (if verdict then [] else error_misaligned_files_lines)\<rparr>)"
  by (simp add: to_csv_def print_error_misaligned_files_def prog_defs)

text \<open>
  The renaming in \<^verbatim>\<open>load_data\<close> acts on the row labels, so the loaded weight table keeps
  the column names of the file; it has the columns of the artifact only if the file already
  names them \<^verbatim>\<open>effect_allele\<close> and \<^verbatim>\<open>effect_weight\<close>.
\<close>

lemma rename_keeps_columns: "columns (rename mapper df) = columns df"
  by (simp add: rename_def)

text \<open>How a run of \<^verbatim>\<open>preprocess_data\<close> can end.\<close>

lemma preprocess_data_E:
  assumes "preprocess_data pgscatalog_df0 plink_variants_df processed_wm_text_file w = (r, w')"
  obtains
    (keying) e where
      "key_by_strategy pgscatalog_df0 plink_variants_df w = (Inl e, w')" and "r = Inl e"
  | (unkeyed) pgscatalog_df w1 e where
      "key_by_strategy pgscatalog_df0 plink_variants_df w = (Inr pgscatalog_df, w1)"
      and "check_the_files_match pgscatalog_df plink_variants_df w1 = (Inl e, w')"
      and "r = Inl e"
  | (columns_missing) pgscatalog_df w1 verdict e where
      "key_by_strategy pgscatalog_df0 plink_variants_df w = (Inr pgscatalog_df, w1)"
      and "check_the_files_match pgscatalog_df plink_variants_df w1 = (Inr verdict, w')"
      and "select_columns pgscatalog_df [''pos_key'', ''effect_allele'', ''effect_weight'']
             = Inl e"
      and "r = Inl e"
  | (enforced) pgscatalog_df w1 verdict w2 artifact where
      "key_by_strategy pgscatalog_df0 plink_variants_df w = (Inr pgscatalog_df, w1)"
      and "check_the_files_match pgscatalog_df plink_variants_df w1 = (Inr verdict, w2)"
      and "select_columns pgscatalog_df [''pos_key'', ''effect_allele'', ''effect_weight'']
             = Inr artifact"
      and "r = (if verdict then Inr () else Inl (Exit 40))"
      and "w' = w2\<lparr>disk := (disk w2)(processed_wm_text_file \<mapsto> Csv (csv_lines artifact)),
                    console := console w2 @ ToCsv processed_wm_text_file
                               # (if verdict then [] else error_misaligned_files_lines)\<rparr>"
  using assms unfolding preprocess_data_alt
proof (cases rule: bindP_E)
  case (fail e)
  then show ?thesis
    by (rule keying)
next
  case (ok pgscatalog_df w1)
  from ok(2) show ?thesis
  proof (cases rule: bindP_E)
    case (fail e)
    with ok(1) show ?thesis
      by (intro unkeyed)
  next
    case inner: (ok verdict w2)
    from inner(2) show ?thesis
    proof (cases rule: bindP_E)
      case (fail e)
      then have "select_columns pgscatalog_df [''pos_key'', ''effect_allele'', ''effect_weight'']
                   = Inl e" and "w' = w2"
        by (simp_all add: lift_def)
      with ok(1) inner(1) fail(2) show ?thesis
        by (intro columns_missing) simp_all
    next
      case last: (ok artifact w3)
      from last(1) have sel: "select_columns pgscatalog_df
                                [''pos_key'', ''effect_allele'', ''effect_weight''] = Inr artifact"
        and w3: "w3 = w2"
        by (simp_all add: lift_def)
      from last(2) have "r = (if verdict then Inr () else Inl (Exit 40))"
        and "w' = w2\<lparr>disk := (disk w2)(processed_wm_text_file \<mapsto> Csv (csv_lines artifact)),
                       console := console w2 @ ToCsv processed_wm_text_file
                                  # (if verdict then [] else error_misaligned_files_lines)\<rparr>"
        unfolding after_verdict w3 by simp_all
      with ok(1) inner(1) sel show ?thesis
        by (intro enforced)
    qed
  qed
qed

text \<open>
  A run of \<^verbatim>\<open>preprocess_data\<close> that gets to enforce the verdict, whether it ends with exit
  status 40 or returns, has written the artifact first: the table was keyed, the verdict
  computed, the three columns written to the artifact path, and only then, when the verdict
  is rejected, the diagnostic printed and the run ended.  A run whose keyed table lacks one
  of the three columns does not get that far.
\<close>

lemma enforced_verdict_has_artifact:
  assumes "preprocess_data pgscatalog_df0 plink_variants_df processed_wm_text_file w = (r, w')"
    and "r = Inl (Exit 40) \<or> r = Inr ()"
  shows "\<exists>pgscatalog_df w1 verdict w2 artifact.
           key_by_strategy pgscatalog_df0 plink_variants_df w = (Inr pgscatalog_df, w1)
           \<and> check_the_files_match pgscatalog_df plink_variants_df w1 = (Inr verdict, w2)
           \<and> select_columns pgscatalog_df [''pos_key'', ''effect_allele'', ''effect_weight'']
               = Inr artifact
           \<and> (r = Inl (Exit 40)) = (\<not> verdict)
           \<and> disk w' processed_wm_text_file = Some (Csv (csv_lines artifact))
           \<and> console w'
               = console w2 @ ToCsv processed_wm_text_file
                 # (if verdict then [] else error_misaligned_files_lines)"
  using assms(1)
proof (cases rule: preprocess_data_E)
  case (keying e)
  with assms(2) key_by_strategy_not_40 show ?thesis
    by blast
next
  case (unkeyed pgscatalog_df w1 e)
  with assms(2) check_the_files_match_not_exit show ?thesis
    by blast
next
  case (columns_missing pgscatalog_df w1 verdict e)
  with assms(2) select_columns_not_exit show ?thesis
    by blast
next
  case (enforced pgscatalog_df w1 verdict w2 artifact)
  from enforced(4) have "(r = Inl (Exit 40)) = (\<not> verdict)"
    by simp
  with enforced(1,2,3,5) show ?thesis
    by (intro exI [of _ pgscatalog_df] exI [of _ w1] exI [of _ verdict] exI [of _ w2]
          exI [of _ artifact]) simp
qed

lemma enforced_verdict_has_artifact_example:
  "fst (preprocess_data example_weights example_panel ''score.txt.annotated''
          example_keying_world) = Inl (Exit 40)
   \<and> disk (snd (preprocess_data example_weights example_panel ''score.txt.annotated''
                  example_keying_world)) ''score.txt.annotated''
       = Some (Csv (csv_lines example_artifact))"
proof -
  let ?run = "preprocess_data example_weights example_panel ''score.txt.annotated''
                example_keying_world"
  have f: "fst ?run = Inl (Exit 40)"
    by code_simp
  then have h1: "?run = (Inl (Exit 40), snd ?run)"
    by (simp add: prod_eq_iff)
  have k: "fst (key_by_strategy example_weights example_panel example_keying_world)
             = Inr example_keyed"
    by code_simp
  have s: "select_columns example_keyed [''pos_key'', ''effect_allele'', ''effect_weight'']
             = Inr example_artifact"
    by code_simp
  from enforced_verdict_has_artifact [OF h1]
  obtain pgscatalog_df w1 artifact where
    "key_by_strategy example_weights example_panel example_keying_world = (Inr pgscatalog_df, w1)"
    and sel: "select_columns pgscatalog_df [''pos_key'', ''effect_allele'', ''effect_weight'']
                = Inr artifact"
    and d: "disk (snd ?run) ''score.txt.annotated'' = Some (Csv (csv_lines artifact))"
    by blast
  with k have "pgscatalog_df = example_keyed"
    by simp
  with sel s have "artifact = example_artifact"
    by simp
  with d f show ?thesis
    by simp
qed

text \<open>
  C5.  The write of the artifact is the statement before the enforcement of the verdict, and
  with a weight file that names its columns \<^verbatim>\<open>effect_allele\<close> and \<^verbatim>\<open>effect_weight\<close> a
  rejected run ends with status 40 and the artifact on disk, as the first run below shows.
  It does not hold for every run.  In the second run the file names its columns \<^verbatim>\<open>SNP\<close>,
  \<^verbatim>\<open>A1\<close> and \<^verbatim>\<open>BETA\<close>; the renaming in \<^verbatim>\<open>load_data\<close> leaves them as they are, the
  verdict is rejected, and the selection of the three columns raises \<^verbatim>\<open>KeyError\<close> before
  anything is written: the run ends with no artifact on disk.
\<close>

theorem rejected_run_without_artifact:
  "fst (verdict_of_run ''panel'' ''score.txt'' example_world) = Inr False
   \<and> fst (main example_arguments example_world) = Inl (Exit 40)
   \<and> disk (snd (main example_arguments example_world)) ''score.txt.annotated''
       = Some (Csv [['''', ''pos_key'', ''effect_allele'', ''effect_weight''],
                    [''0'', ''rs1'', ''A'', ''1.2345e-01''],
                    [''1'', ''rs2'', ''T'', ''-7.3000e-05'']])
   \<and> fst (load_data ''panel'' ''other.txt'' example_other_world)
       = Inr (example_other_weights, example_panel, ''other.txt.annotated'')
   \<and> fst (verdict_of_run ''panel'' ''other.txt'' example_other_world) = Inr False
   \<and> fst (main example_other_arguments example_other_world) = Inl (KeyError ''effect_allele'')
   \<and> disk (snd (main example_other_arguments example_other_world)) ''other.txt.annotated''
       = None
   \<and> filter (\<lambda>ev. case ev of ToCsv path \<Rightarrow> True | _ \<Rightarrow> False)
        (console (snd (main example_other_arguments example_other_world))) = []"
  by code_simp

subsection \<open>Steps that do not start the scorer\<close>

lemma unscored_ret: "unscored (ret x)"
  by (simp add: unscored_def ret_def)

lemma unscored_raise: "unscored (raise e)"
  by (simp add: unscored_def raise_def)

lemma unscored_exit: "unscored (exit c)"
  by (simp add: exit_def unscored_raise)

lemma unscored_lift: "unscored (lift r)"
  by (simp add: unscored_def lift_def)

lemma unscored_gets: "unscored (gets f)"
  by (simp add: unscored_def gets_def)

lemma unscored_isfile: "unscored (isfile p)"
  by (simp add: unscored_def isfile_def)

lemma unscored_emit: "filter is_scoring evs = [] \<Longrightarrow> unscored (emit evs)"
  by (simp add: unscored_def emit_def scorer_invocations_def)

lemma unscored_printout: "unscored (printout s)"
  unfolding printout_def by (rule unscored_emit) (simp add: is_scoring_def)

lemma unscored_to_csv: "unscored (to_csv df p)"
  by (simp add: unscored_def to_csv_def scorer_invocations_def is_scoring_def)

lemma unscored_Prompt_ask: "unscored (Prompt_ask choices)"
  by (simp add: unscored_def Prompt_ask_def scorer_invocations_def split: list.splits)

lemma unscored_subprocess_run: "\<not> is_scoring (Subprocess cmd) \<Longrightarrow> unscored (subprocess_run cmd)"
  by (simp add: unscored_def subprocess_run_def scorer_invocations_def
           split: option.splits prod.splits)

lemma unscored_bindP:
  assumes "unscored m" and "\<And>x. unscored (f x)"
  shows "unscored (bindP m f)"
  unfolding unscored_def
proof
  fix w
  show "scorer_invocations (snd (bindP m f w)) = scorer_invocations w"
  proof (cases "m w")
    case (Pair r w1)
    with assms(1) have m: "scorer_invocations w1 = scorer_invocations w"
      by (metis unscored_def snd_conv)
    show ?thesis
    proof (cases r)
      case (Inl e)
      with Pair m show ?thesis
        by (simp add: bindP_def)
    next
      case (Inr x)
      from assms(2) have "scorer_invocations (snd (f x w1)) = scorer_invocations w1"
        by (simp add: unscored_def)
      with Pair Inr m show ?thesis
        by (simp add: bindP_def)
    qed
  qed
qed

lemma unscored_thenP: "unscored m \<Longrightarrow> unscored k \<Longrightarrow> unscored (thenP m k)"
  by (simp add: thenP_def unscored_bindP)

lemma unscored_if:
  "(c \<Longrightarrow> unscored m) \<Longrightarrow> (\<not> c \<Longrightarrow> unscored k) \<Longrightarrow> unscored (if c then m else k)"
  by simp

lemmas unscored_intros = unscored_ret unscored_raise unscored_exit unscored_lift unscored_gets
  unscored_isfile unscored_printout unscored_to_csv unscored_Prompt_ask
  unscored_bindP unscored_thenP unscored_if

lemma unscored_D: "unscored m \<Longrightarrow> m w = (r, w') \<Longrightarrow> scorer_invocations w' = scorer_invocations w"
  by (metis unscored_def snd_conv)

lemma unscored_check_files: "unscored (check_files g exts)"
  by (induction exts)
     (auto intro!: unscored_intros unscored_emit simp: is_scoring_def)

lemma unscored_check_input: "unscored (check_input args)"
  unfolding check_input_def
  by (auto intro!: unscored_intros unscored_emit unscored_check_files
           simp: is_scoring_def split: option.splits)

lemma unscored_read:
  "unscored (read_weight_matrix p)" "unscored (read_bim p)" "unscored (read_profile p)"
  by (auto simp: unscored_def read_weight_matrix_def read_bim_def read_profile_def
           split: option.splits file_content.splits)

lemma unscored_load_data: "unscored (load_data g p)"
  unfolding load_data_def maybe_unpack_def load_prs_wm_def annotate_pgscatalog_file_def
  by (intro unscored_intros unscored_read unscored_subprocess_run) (simp add: is_scoring_def)

lemma unscored_key_by_strategy: "unscored (key_by_strategy df plink)"
  unfolding key_by_strategy_def prep_keys_rsid_def prep_keys_chrompos_def
    print_non_annotated_plink_file_error_def
  by (intro unscored_intros unscored_emit)
     (simp add: non_annotated_plink_file_error_lines_def is_scoring_def)

lemma check_the_files_match_rejected:
  "fst (check_the_files_match df plink w) = Inr False
     \<Longrightarrow> check_the_files_match df plink w = (Inr False, w)"
  by (auto simp: check_the_files_match_def prog_defs Let_def getitem_def
           split: option.splits if_splits)

lemma check_input_Inr:
  assumes "check_input args w = (Inr (), w')"
  shows "\<exists>g p q. genetic args = Some g \<and> prs_wm args = Some p \<and> out args = Some q"
proof -
  from assms show ?thesis
    unfolding check_input_def
    by (auto simp: prog_defs isfile_def split: option.splits if_splits prod.splits sum.splits)
qed

text \<open>
  Take a run of \<^verbatim>\<open>main\<close> in which the input checks pass, the tables are loaded, the
  weight table is keyed, it has the columns of the artifact, and the verdict on it is
  rejected.  Then the artifact is written, the diagnostic with its causes is printed, the
  run ends with exit status 40, and the scorer has not been started.
\<close>

lemma rejected_verdict_with_artifact_columns:
  assumes "check_input args w = (Inr (), w1)"
    and "genetic args = Some plink_prefix" and "prs_wm args = Some prs_wm_text_file"
    and "load_data plink_prefix prs_wm_text_file w1
           = (Inr (pgscatalog_df0, plink_variants_df, processed_wm_text_file), w2)"
    and "key_by_strategy pgscatalog_df0 plink_variants_df w2 = (Inr pgscatalog_df, w3)"
    and "fst (check_the_files_match pgscatalog_df plink_variants_df w3) = Inr False"
    and "select_columns pgscatalog_df [''pos_key'', ''effect_allele'', ''effect_weight'']
           = Inr artifact"
  shows "main args w
           = (Inl (Exit 40),
              w3\<lparr>disk := (disk w3)(processed_wm_text_file \<mapsto> Csv (csv_lines artifact)),
                 console := console w3 @ ToCsv processed_wm_text_file
                            # error_misaligned_files_lines\<rparr>)
         \<and> scorer_invocations (snd (main args w)) = scorer_invocations w"
proof -
  let ?end = "w3\<lparr>disk := (disk w3)(processed_wm_text_file \<mapsto> Csv (csv_lines artifact)),
                 console := console w3 @ ToCsv processed_wm_text_file
                            # error_misaligned_files_lines\<rparr>"
  from check_input_Inr [OF assms(1)] obtain output_prefix where outp: "out args = Some output_prefix"
    by blast
  have v: "check_the_files_match pgscatalog_df plink_variants_df w3 = (Inr False, w3)"
    using assms(6) by (rule check_the_files_match_rejected)
  have pre: "preprocess_data pgscatalog_df0 plink_variants_df processed_wm_text_file w2
               = (Inl (Exit 40), ?end)"
    unfolding preprocess_data_alt
    by (simp add: bindP_def assms(5) v assms(7) lift_def
          after_verdict [where verdict = False, simplified])
  have run: "main args w = (Inl (Exit 40), ?end)"
    unfolding main_def
    by (simp add: thenP_def bindP_def assms(1,2,3,4) outp pre)
  have "scorer_invocations w1 = scorer_invocations w"
    using unscored_check_input assms(1) by (rule unscored_D)
  moreover have "scorer_invocations w2 = scorer_invocations w1"
    using unscored_load_data assms(4) by (rule unscored_D)
  moreover have "scorer_invocations w3 = scorer_invocations w2"
    using unscored_key_by_strategy assms(5) by (rule unscored_D)
  moreover have "scorer_invocations ?end = scorer_invocations w3"
    by (simp add: scorer_invocations_def error_misaligned_files_lines_def is_scoring_def)
  ultimately show ?thesis
    using run by simp
qed

lemma rejected_verdict_with_artifact_columns_example:
  "fst (check_input example_arguments example_world) = Inr ()
   \<and> fst (check_the_files_match example_keyed example_panel
             (snd (key_by_strategy example_weights example_panel
                     (snd (load_data ''panel'' ''score.txt''
                             (snd (check_input example_arguments example_world)))))))
       = Inr False
   \<and> fst (main example_arguments example_world) = Inl (Exit 40)
   \<and> scorer_invocations (snd (main example_arguments example_world)) = []"
proof -
  let ?w1 = "snd (check_input example_arguments example_world)"
  let ?w2 = "snd (load_data ''panel'' ''score.txt'' ?w1)"
  let ?w3 = "snd (key_by_strategy example_weights example_panel ?w2)"
  have f1: "fst (check_input example_arguments example_world) = Inr ()"
    by code_simp
  then have h1: "check_input example_arguments example_world = (Inr (), ?w1)"
    by (simp add: prod_eq_iff)
  have h2: "genetic example_arguments = Some ''panel''"
    and h3: "prs_wm example_arguments = Some ''score.txt''"
    by (simp_all add: example_arguments_def)
  have "fst (load_data ''panel'' ''score.txt'' ?w1)
          = Inr (example_weights, example_panel, ''score.txt.annotated'')"
    by code_simp
  then have h4: "load_data ''panel'' ''score.txt'' ?w1
                   = (Inr (example_weights, example_panel, ''score.txt.annotated''), ?w2)"
    by (simp add: prod_eq_iff)
  have "fst (key_by_strategy example_weights example_panel ?w2) = Inr example_keyed"
    by code_simp
  then have h5: "key_by_strategy example_weights example_panel ?w2 = (Inr example_keyed, ?w3)"
    by (simp add: prod_eq_iff)
  have h6: "fst (check_the_files_match example_keyed example_panel ?w3) = Inr False"
    by code_simp
  have h7: "select_columns example_keyed [''pos_key'', ''effect_allele'', ''effect_weight'']
              = Inr example_artifact"
    by code_simp
  have s: "scorer_invocations example_world = []"
    by (simp add: scorer_invocations_def example_world_def)
  note t = rejected_verdict_with_artifact_columns [OF h1 h2 h3 h4 h5 h6 h7]
  from t have a: "fst (main example_arguments example_world) = Inl (Exit 40)"
    by simp
  from t have "scorer_invocations (snd (main example_arguments example_world))
                 = scorer_invocations example_world"
    by (rule conjunct2)
  with s have b: "scorer_invocations (snd (main example_arguments example_world)) = []"
    by simp
  from f1 h6 a b show ?thesis
    by blast
qed

text \<open>
  C6.  With a weight file that names its columns \<^verbatim>\<open>effect_allele\<close> and \<^verbatim>\<open>effect_weight\<close>
  a rejected run prints the diagnostic with its four causes, ends with status 40 and does not
  start the scorer, as the first run below shows.  It does not hold for every rejected run.
  In the second run the file names its columns \<^verbatim>\<open>SNP\<close>, \<^verbatim>\<open>A1\<close> and \<^verbatim>\<open>BETA\<close>; the
  renaming in \<^verbatim>\<open>load_data\<close> leaves them as they are, the verdict is rejected, and the run
  ends with \<^verbatim>\<open>KeyError\<close> at the selection of the artifact columns: the diagnostic is not
  printed and the status is not 40.  The scorer is not started in either run.
\<close>

theorem rejected_run_without_diagnostic:
  "fst (verdict_of_run ''panel'' ''score.txt'' example_world) = Inr False
   \<and> fst (main example_arguments example_world) = Inl (Exit 40)
   \<and> console (snd (main example_arguments example_world))
       = [Printout ''Loading PGSCatalog data and removing comments and indels...'',
          Printout ''  2 SNPs discovered in the PRS weight matrix'',
          Printout (''  WARNING: This looks like a more classical GRS! ''
                    @ ''But we will continue anyways''),
          Printout ''Loading plink data...'',
          Printout (''All data are loaded'' @ [CHR 0x0A] @ ''-----------------''),
          Printout ''Trying to match PGSCatalog data with plink data using rsID...'',
          ToCsv ''score.txt.annotated'',
          Print ''ERROR: Less that a half of the PGSCatalog SNPs are available.'',
          Print ''ERROR: This may be for one of the following reasons:'',
          Print (''ERROR: 1. Either you are using un-imputed plink data. ''
                 @ ''THEN you have to impute the data.''),
          Print (''ERROR: *2. Or you have data imputed to a very specific panel that does not ''
                 @ ''contain a lot of common variants ''
                 @ ''(happens seldom, probably won't happen to you). ''
                 @ ''THEN you have to impute the data to a more general panel.''),
          Print (''ERROR: 3. Or the PRS weight matrix is using a different reference genome ''
                 @ ''than your plink data. ''
                 @ ''THEN you need to liftover your data to the correct reference genome.''),
          Print (''ERROR: *4. Or the PRS was done using a very specific chip and contains such ''
                 @ ''unique SNPs that no imputation panel has them ''
                 @ ''(happens seldom, probably won't happen to you). ''
                 @ ''THEN you have to find an imputation panel that has these SNPs ''
                 @ ''and impute the data to this panel.''),
          TroubleshootGuide]
   \<and> scorer_invocations (snd (main example_arguments example_world)) = []
   \<and> fst (verdict_of_run ''panel'' ''other.txt'' example_other_world) = Inr False
   \<and> fst (main example_other_arguments example_other_world) = Inl (KeyError ''effect_allele'')
   \<and> console (snd (main example_other_arguments example_other_world))
       = [Printout ''Loading PGSCatalog data and removing comments and indels...'',
          Printout ''  2 SNPs discovered in the PRS weight matrix'',
          Printout (''  WARNING: This looks like a more classical GRS! ''
                    @ ''But we will continue anyways''),
          Printout ''Loading plink data...'',
          Printout (''All data are loaded'' @ [CHR 0x0A] @ ''-----------------''),
          Printout ''Trying to match PGSCatalog data with plink data using rsID...'']
   \<and> scorer_invocations (snd (main example_other_arguments example_other_world)) = []"
  by code_simp

section \<open>Exit statuses\<close>

lemma check_files_fst:
  "fst (check_files g exts w)
     = (if \<exists>ext\<in>set exts. disk w (g @ ''.'' @ ext) = None then Inl (Exit 4) else Inr ())"
  by (induction exts) (auto simp: prog_defs isfile_def)

lemma check_files_Inr: "check_files g exts w = (Inr (), w') \<Longrightarrow> w' = w"
  by (induction exts) (auto simp: prog_defs isfile_def split: if_splits)

declare check_files.simps [simp del]

lemma check_input_fst:
  "fst (check_input args w)
     = (case genetic args of
          None \<Rightarrow> Inl (Exit 1)
        | Some g \<Rightarrow>
            if \<exists>ext\<in>set [''bed'', ''bim'', ''fam'']. disk w (g @ ''.'' @ ext) = None
            then Inl (Exit 4)
            else (case prs_wm args of
                    None \<Rightarrow> Inl (Exit 2)
                  | Some p \<Rightarrow>
                      if disk w p = None then Inl (Exit 5)
                      else (case out args of None \<Rightarrow> Inl (Exit 3) | Some _ \<Rightarrow> Inr ())))"
proof (cases "genetic args")
  case None
  then show ?thesis
    by (simp add: check_input_def prog_defs)
next
  case (Some g)
  show ?thesis
  proof (cases "check_files g [''bed'', ''bim'', ''fam''] w")
    case (Pair r w1)
    show ?thesis
    proof (cases r)
      case (Inl e)
      with Pair check_files_fst [of g "[''bed'', ''bim'', ''fam'']" w] Some show ?thesis
        by (auto simp: check_input_def thenP_def bindP_def split: if_splits)
    next
      case (Inr u)
      with Pair have "check_files g [''bed'', ''bim'', ''fam''] w = (Inr (), w1)"
        by simp
      then have w1: "w1 = w"
        by (rule check_files_Inr)
      from Pair Inr check_files_fst [of g "[''bed'', ''bim'', ''fam'']" w]
      have "\<not> (\<exists>ext\<in>set [''bed'', ''bim'', ''fam'']. disk w (g @ ''.'' @ ext) = None)"
        by (auto split: if_splits)
      with Pair Inr w1 Some show ?thesis
        by (auto simp: check_input_def prog_defs isfile_def split: option.splits)
    qed
  qed
qed

lemma check_input_world: "check_input args w = (Inr (), w') \<Longrightarrow> w' = w"
  unfolding check_input_def
  by (auto simp: prog_defs isfile_def dest: check_files_Inr
           split: option.splits if_splits prod.splits sum.splits)

lemma check_input_codes:
  assumes "fst (check_input args w) = Inl (Exit c)"
  shows "c \<in> {1, 2, 3, 4, 5}"
  using assms unfolding check_input_fst
  by (auto split: option.splits if_splits)

lemma fires_unannotated:
  "(nunique (map rsid plink) = 1 \<and> hd (unique (map rsid plink)) = CStr ''.'')
     = unannotated plink"
  unfolding fires_iff unannotated_def by (cases "map rsid plink") auto

lemma prep_keys_rsid_Exit:
  assumes "prep_keys_rsid df plink w = (Inl (Exit c), w')"
  shows "c = 30 \<and> unannotated plink"
proof (cases "unannotated plink")
  case True
  from assms
  have "thenP print_non_annotated_plink_file_error (exit 30) w
          = (Inl (Exit c) :: error + dataframe, w')"
    unfolding prep_keys_rsid_def fires_unannotated using True by simp
  with True show ?thesis
    by (simp add: print_non_annotated_plink_file_error_def prog_defs)
next
  case False
  have "raises (\<lambda>e. \<forall>c. e \<noteq> Exit c)
          (bindP (Prompt_ask (map fst (columns df))) (\<lambda>rsid_column.
           bindP (lift (getitem df rsid_column)) (\<lambda>ids.
           bindP (gets float_str) (\<lambda>fstr.
             ret (setitem df ''pos_key'' (map (\<lambda>c. CStr (astype_str fstr c)) ids))))))"
    by (intro raises_intros raises_getitem) simp_all
  moreover from assms
  have "bindP (Prompt_ask (map fst (columns df))) (\<lambda>rsid_column.
           bindP (lift (getitem df rsid_column)) (\<lambda>ids.
           bindP (gets float_str) (\<lambda>fstr.
             ret (setitem df ''pos_key'' (map (\<lambda>c. CStr (astype_str fstr c)) ids))))) w
          = (Inl (Exit c), w')"
    unfolding prep_keys_rsid_def fires_unannotated using False by simp
  ultimately show ?thesis
    unfolding raises_def by blast
qed

lemma prep_keys_chrompos_no_exit:
  "prep_keys_chrompos df plink w = (Inl e, w') \<Longrightarrow> e \<noteq> Exit c"
  using raises_prep_keys_chrompos [of "\<lambda>e. e \<noteq> Exit c" df plink]
  by (simp add: raises_def) blast

lemma key_by_strategy_Exit:
  assumes "key_by_strategy df plink w = (Inl (Exit c), w')"
  shows "c = 30 \<and> unannotated plink"
  using assms unfolding key_by_strategy_def
proof (cases rule: bindP_E)
  case (fail e)
  then show ?thesis
    by (auto simp: Prompt_ask_def split: list.splits)
next
  case (ok how w1)
  from ok(2) show ?thesis
    by (auto simp: thenP_def printout_def emit_def raise_def
             elim!: bindP_E split: if_splits
             dest: prep_keys_rsid_Exit prep_keys_chrompos_no_exit)
qed

lemma preprocess_data_Exit:
  assumes "preprocess_data df0 plink path w = (Inl (Exit c), w')"
  shows "(c = 30 \<and> unannotated plink)
         \<or> (c = 40 \<and> (\<exists>df w1. key_by_strategy df0 plink w = (Inr df, w1)
                          \<and> fst (check_the_files_match df plink w1) = Inr False))"
  using assms
proof (cases rule: preprocess_data_E)
  case (keying e)
  with key_by_strategy_Exit show ?thesis
    by blast
next
  case (unkeyed df w1 e)
  with check_the_files_match_not_exit show ?thesis
    by blast
next
  case (columns_missing df w1 verdict e)
  with select_columns_not_exit show ?thesis
    by blast
next
  case (enforced df w1 verdict w2 artifact)
  from enforced(4) have "c = 40" and "\<not> verdict"
    by (simp_all split: if_splits)
  with enforced(1,2) show ?thesis
    by auto
qed

lemma join_Inl: "join sep ls = Inl e \<Longrightarrow> e = TypeError"
  by (induction sep ls rule: join.induct) (auto split: sum.splits)

lemma raises_plink_qc: "E TypeError \<Longrightarrow> raises E (plink_qc df)"
  unfolding plink_qc_def Let_def
  by (intro raises_intros raises_lift) (auto dest: join_Inl)

lemma raises_read:
  "E (ReadError p) \<Longrightarrow> raises E (read_weight_matrix p)"
  "E (ReadError p) \<Longrightarrow> raises E (read_bim p)"
  "E (ReadError p) \<Longrightarrow> raises E (read_profile p)"
  by (auto simp: raises_def read_weight_matrix_def read_bim_def read_profile_def
           split: option.splits file_content.splits)

lemma raises_score_output: "raises (\<lambda>e. \<forall>c. e \<noteq> Exit c) (score_output q)"
  unfolding score_output_def
  by (intro raises_intros raises_read raises_plink_qc) simp_all

lemma raises_load_data: "raises (\<lambda>e. \<forall>c. e \<noteq> Exit c) (load_data g p)"
  unfolding load_data_def maybe_unpack_def load_prs_wm_def annotate_pgscatalog_file_def
  by (intro raises_intros raises_read) simp_all

lemma load_data_no_exit: "load_data g p w = (Inl e, w') \<Longrightarrow> e \<noteq> Exit c"
  using raises_load_data [of g p] by (simp add: raises_def) blast

lemma score_output_no_exit: "score_output q w = (Inl e, w') \<Longrightarrow> e \<noteq> Exit c"
  using raises_score_output [of q] by (simp add: raises_def) blast

lemma calculate_prs_run:
  "calculate_prs g path q w
     = (case processes w (plink_command g path q) (disk w) of
          None \<Rightarrow>
            (Inl (FileNotFoundError ''plink''),
             w\<lparr>console := console w @ [Printout ''Running plink PRS scoring...'']\<rparr>)
        | Some (returncode, stderr, disk') \<Rightarrow>
            if returncode \<noteq> 0 \<or> disk' (q @ ''.profile'') = None
            then (Inl (Exit 20),
                  w\<lparr>disk := disk',
                    console := console w
                      @ [Printout ''Running plink PRS scoring...'',
                         Subprocess (plink_command g path q),
                         Print ''ERROR: plink has failed'', Print stderr]\<rparr>)
            else score_output q
                   (w\<lparr>disk := disk',
                      console := console w
                        @ [Printout ''Running plink PRS scoring...'',
                           Subprocess (plink_command g path q)]\<rparr>))"
  by (simp add: calculate_prs_def score_output_def plink_command_def prog_defs
        subprocess_run_def isfile_def split: option.splits prod.splits)

lemma calculate_prs_Exit:
  assumes "calculate_prs g path q w = (Inl (Exit c), w')"
  shows "c = 20 \<and> scorer_failed g path q w"
proof (cases "scorer_failed g path q w")
  case True
  with assms show ?thesis
    by (auto simp: calculate_prs_run scorer_failed_def split: option.splits prod.splits)
next
  case False
  with assms show ?thesis
    by (auto simp: calculate_prs_run scorer_failed_def split: option.splits prod.splits
             dest: score_output_no_exit)
qed

text \<open>
  The five conditions on the arguments and input files are told apart by \<^verbatim>\<open>check_input\<close>,
  which ends with status 1, 4, 2, 5 or 3 exactly under its own condition.  A run of
  \<^verbatim>\<open>main\<close> that ends through \<^verbatim>\<open>exit\<close> ends with one of these five from \<^verbatim>\<open>check_input\<close>,
  or, after loading, with 30 on a panel without annotation, with 40 on a rejected verdict, or
  with 20 when the scorer has run and failed; and a scorer that has run and failed always
  gives status 20.
\<close>

lemma exit_code_identifies_cause:
  "fst (check_input args w)
     = (case genetic args of
          None \<Rightarrow> Inl (Exit 1)
        | Some g \<Rightarrow>
            if \<exists>ext\<in>set [''bed'', ''bim'', ''fam'']. disk w (g @ ''.'' @ ext) = None
            then Inl (Exit 4)
            else (case prs_wm args of
                    None \<Rightarrow> Inl (Exit 2)
                  | Some p \<Rightarrow>
                      if disk w p = None then Inl (Exit 5)
                      else (case out args of None \<Rightarrow> Inl (Exit 3) | Some _ \<Rightarrow> Inr ())))
   \<and> (main args w = (Inl (Exit c), w') \<longrightarrow>
        (c \<in> {1, 2, 3, 4, 5} \<and> fst (check_input args w) = Inl (Exit c))
        \<or> (\<exists>g p q pgscatalog_df0 plink_variants_df path w1.
              genetic args = Some g \<and> prs_wm args = Some p \<and> out args = Some q
              \<and> load_data g p w = (Inr (pgscatalog_df0, plink_variants_df, path), w1)
              \<and> ((c = 30 \<and> unannotated plink_variants_df)
                  \<or> (c = 40
                      \<and> (\<exists>pgscatalog_df w2.
                            key_by_strategy pgscatalog_df0 plink_variants_df w1
                              = (Inr pgscatalog_df, w2)
                            \<and> fst (check_the_files_match pgscatalog_df plink_variants_df w2)
                                = Inr False))
                  \<or> (c = 20
                      \<and> (\<exists>w2. preprocess_data pgscatalog_df0 plink_variants_df path w1
                                 = (Inr (), w2)
                               \<and> scorer_failed g path q w2)))))
   \<and> (scorer_failed plink_prefix processed_wm_text_file output_prefix w0 \<longrightarrow>
        fst (calculate_prs plink_prefix processed_wm_text_file output_prefix w0)
          = Inl (Exit 20))"
proof (intro conjI impI)
  show "fst (check_input args w)
     = (case genetic args of
          None \<Rightarrow> Inl (Exit 1)
        | Some g \<Rightarrow>
            if \<exists>ext\<in>set [''bed'', ''bim'', ''fam'']. disk w (g @ ''.'' @ ext) = None
            then Inl (Exit 4)
            else (case prs_wm args of
                    None \<Rightarrow> Inl (Exit 2)
                  | Some p \<Rightarrow>
                      if disk w p = None then Inl (Exit 5)
                      else (case out args of None \<Rightarrow> Inl (Exit 3) | Some _ \<Rightarrow> Inr ())))"
    by (rule check_input_fst)
next
  assume "scorer_failed plink_prefix processed_wm_text_file output_prefix w0"
  then show "fst (calculate_prs plink_prefix processed_wm_text_file output_prefix w0)
               = Inl (Exit 20)"
    by (auto simp: calculate_prs_run scorer_failed_def split: option.splits prod.splits)
next
  let ?late = "\<exists>g p q pgscatalog_df0 plink_variants_df path w1.
              genetic args = Some g \<and> prs_wm args = Some p \<and> out args = Some q
              \<and> load_data g p w = (Inr (pgscatalog_df0, plink_variants_df, path), w1)
              \<and> ((c = 30 \<and> unannotated plink_variants_df)
                  \<or> (c = 40
                      \<and> (\<exists>pgscatalog_df w2.
                            key_by_strategy pgscatalog_df0 plink_variants_df w1
                              = (Inr pgscatalog_df, w2)
                            \<and> fst (check_the_files_match pgscatalog_df plink_variants_df w2)
                                = Inr False))
                  \<or> (c = 20
                      \<and> (\<exists>w2. preprocess_data pgscatalog_df0 plink_variants_df path w1
                                 = (Inr (), w2)
                               \<and> scorer_failed g path q w2)))"
  assume run: "main args w = (Inl (Exit c), w')"
  from run show "(c \<in> {1, 2, 3, 4, 5} \<and> fst (check_input args w) = Inl (Exit c)) \<or> ?late"
    unfolding main_def
  proof (cases rule: thenP_E)
    case (fail e)
    then have "fst (check_input args w) = Inl (Exit c)"
      by simp
    with check_input_codes show ?thesis
      by blast
  next
    case (ok w1)
    from check_input_world [OF ok(1)] have w1: "w1 = w" .
    from check_input_Inr [OF ok(1)] obtain g p q where
      args: "genetic args = Some g" "prs_wm args = Some p" "out args = Some q"
      by blast
    from ok(2) have "bindP (load_data g p) (\<lambda>loaded.
              case loaded of (pgscatalog_df, plink_variants_df, processed_wm_text_file) \<Rightarrow>
                thenP (preprocess_data pgscatalog_df plink_variants_df processed_wm_text_file)
                      (calculate_prs g processed_wm_text_file q)) w = (Inl (Exit c), w')"
      by (simp add: args w1)
    then have ?late
    proof (cases rule: bindP_E)
      case (fail e)
      with load_data_no_exit show ?thesis
        by blast
    next
      case loaded: (ok loaded w2)
      obtain pgscatalog_df0 plink_variants_df path where
        l: "loaded = (pgscatalog_df0, plink_variants_df, path)"
        by (cases loaded)
      from loaded(2) have "thenP (preprocess_data pgscatalog_df0 plink_variants_df path)
                             (calculate_prs g path q) w2 = (Inl (Exit c), w')"
        by (simp add: l)
      then have "(c = 30 \<and> unannotated plink_variants_df)
                  \<or> (c = 40
                      \<and> (\<exists>pgscatalog_df w3.
                            key_by_strategy pgscatalog_df0 plink_variants_df w2
                              = (Inr pgscatalog_df, w3)
                            \<and> fst (check_the_files_match pgscatalog_df plink_variants_df w3)
                                = Inr False))
                  \<or> (c = 20
                      \<and> (\<exists>w3. preprocess_data pgscatalog_df0 plink_variants_df path w2
                                 = (Inr (), w3)
                               \<and> scorer_failed g path q w3))"
      proof (cases rule: thenP_E)
        case (fail e)
        then have "preprocess_data pgscatalog_df0 plink_variants_df path w2
                     = (Inl (Exit c), w')"
          by simp
        from preprocess_data_Exit [OF this] show ?thesis
          by blast
      next
        case scoring: (ok w3)
        from calculate_prs_Exit [OF scoring(2)] scoring(1) show ?thesis
          by blast
      qed
      with loaded(1) l args show ?thesis
        by blast
    qed
    then show ?thesis ..
  qed
qed

lemma exit_code_identifies_cause_example:
  "fst (check_input example_arguments example_world) = Inr ()
   \<and> fst (main example_arguments example_world) = Inl (Exit 40)
   \<and> (\<exists>pgscatalog_df w2.
         fst (check_the_files_match pgscatalog_df example_panel w2) = Inr False)
   \<and> scorer_failed ''panel'' ''score.txt.annotated'' ''result'' example_failing_world
   \<and> fst (calculate_prs ''panel'' ''score.txt.annotated'' ''result'' example_failing_world)
       = Inl (Exit 20)"
proof -
  let ?end = "snd (main example_arguments example_world)"
  note t = exit_code_identifies_cause
             [where args = example_arguments and w = example_world and c = 40 and w' = ?end
                and plink_prefix = "''panel''" and processed_wm_text_file = "''score.txt.annotated''"
                and output_prefix = "''result''" and ?w0.0 = example_failing_world]
  have f: "fst (main example_arguments example_world) = Inl (Exit 40)"
    by code_simp
  then have m: "main example_arguments example_world = (Inl (Exit 40), ?end)"
    by (simp add: prod_eq_iff)
  have sf: "scorer_failed ''panel'' ''score.txt.annotated'' ''result'' example_failing_world"
    by code_simp
  have l: "fst (load_data ''panel'' ''score.txt'' example_world)
             = Inr (example_weights, example_panel, ''score.txt.annotated'')"
    by code_simp
  have a: "genetic example_arguments = Some ''panel''"
    "prs_wm example_arguments = Some ''score.txt''"
    by (simp_all add: example_arguments_def)
  from t have "fst (check_input example_arguments example_world)
     = (case genetic example_arguments of
          None \<Rightarrow> Inl (Exit 1)
        | Some g \<Rightarrow>
            if \<exists>ext\<in>set [''bed'', ''bim'', ''fam'']. disk example_world (g @ ''.'' @ ext) = None
            then Inl (Exit 4)
            else (case prs_wm example_arguments of
                    None \<Rightarrow> Inl (Exit 2)
                  | Some p \<Rightarrow>
                      if disk example_world p = None then Inl (Exit 5)
                      else (case out example_arguments of
                              None \<Rightarrow> Inl (Exit 3) | Some _ \<Rightarrow> Inr ())))"
    by (rule conjunct1)
  then have ci: "fst (check_input example_arguments example_world) = Inr ()"
    by (simp add: example_arguments_def example_world_def example_disk_def)
  from t m
  have "((40::nat) \<in> {1, 2, 3, 4, 5}
           \<and> fst (check_input example_arguments example_world) = Inl (Exit 40))
        \<or> (\<exists>g p q pgscatalog_df0 plink_variants_df path w1.
              genetic example_arguments = Some g \<and> prs_wm example_arguments = Some p
              \<and> out example_arguments = Some q
              \<and> load_data g p example_world
                  = (Inr (pgscatalog_df0, plink_variants_df, path), w1)
              \<and> (((40::nat) = 30 \<and> unannotated plink_variants_df)
                  \<or> ((40::nat) = 40
                      \<and> (\<exists>pgscatalog_df w2.
                            key_by_strategy pgscatalog_df0 plink_variants_df w1
                              = (Inr pgscatalog_df, w2)
                            \<and> fst (check_the_files_match pgscatalog_df plink_variants_df w2)
                                = Inr False))
                  \<or> ((40::nat) = 20
                      \<and> (\<exists>w2. preprocess_data pgscatalog_df0 plink_variants_df path w1
                                 = (Inr (), w2)
                               \<and> scorer_failed g path q w2))))"
    by blast
  then obtain g p pgscatalog_df0 plink_variants_df path w1 pgscatalog_df w2 where
    g: "genetic example_arguments = Some g" and p: "prs_wm example_arguments = Some p"
    and ld: "load_data g p example_world = (Inr (pgscatalog_df0, plink_variants_df, path), w1)"
    and v: "fst (check_the_files_match pgscatalog_df plink_variants_df w2) = Inr False"
    by auto
  from g p a have "g = ''panel''" and "p = ''score.txt''"
    by simp_all
  with ld l have "plink_variants_df = example_panel"
    by simp
  with v have rejected: "\<exists>pgscatalog_df w2.
      fst (check_the_files_match pgscatalog_df example_panel w2) = Inr False"
    by blast
  from t sf have e20: "fst (calculate_prs ''panel'' ''score.txt.annotated'' ''result''
                             example_failing_world) = Inl (Exit 20)"
    by blast
  from ci f rejected sf e20 show ?thesis
    by blast
qed

text \<open>
  C8.  The statuses 1, 4, 2, 5, 3, 30, 40 and 20 are different numbers, and a run that ends
  with one of them through \<^verbatim>\<open>exit\<close> met its condition (the lemma above).  But not every
  fatal condition ends the run with its status, and status 1 has more than one cause.  A run
  without the genetic-data argument ends with status 1.  So does the rejected run on the
  weight file with the columns \<^verbatim>\<open>SNP\<close>, \<^verbatim>\<open>A1\<close> and \<^verbatim>\<open>BETA\<close>, which ends with an uncaught
  \<^verbatim>\<open>KeyError\<close> where the file with the columns \<^verbatim>\<open>effect_allele\<close> and \<^verbatim>\<open>effect_weight\<close>
  ends with status 40.  So does the accepted run in which the scorer cannot be started, which
  ends with an uncaught \<^verbatim>\<open>FileNotFoundError\<close> where a scorer that returns the code 1 ends
  the run with status 20.
\<close>

theorem status_one_has_several_causes:
  "fst (main (example_arguments\<lparr>genetic := None\<rparr>) example_world) = Inl (Exit 1)
   \<and> process_status (fst (main (example_arguments\<lparr>genetic := None\<rparr>) example_world)) = 1
   \<and> fst (verdict_of_run ''panel'' ''score.txt'' example_world) = Inr False
   \<and> process_status (fst (main example_arguments example_world)) = 40
   \<and> fst (verdict_of_run ''panel'' ''other.txt'' example_other_world) = Inr False
   \<and> fst (main example_other_arguments example_other_world) = Inl (KeyError ''effect_allele'')
   \<and> process_status (fst (main example_other_arguments example_other_world)) = 1
   \<and> fst (verdict_of_run ''panel'' ''score.txt'' example_unstartable_world) = Inr True
   \<and> process_status
        (fst (main example_arguments
                (example_unstartable_world\<lparr>processes := (\<lambda>cmd d. Some (1, ''plink: error'', d))\<rparr>)))
       = 20
   \<and> fst (main example_arguments example_unstartable_world)
       = Inl (FileNotFoundError ''plink'')
   \<and> process_status (fst (main example_arguments example_unstartable_world)) = 1"
  by code_simp

end
